theory Spec2Isabelle
  imports
    Main
    "HOL-Library.Word"
    "HOL-Library.List_Lexorder"
    "HOL-Library.Product_Lexorder"
begin

section \<open>Strings and numbers of the TypeScript sources\<close>

text \<open>
  A JavaScript string is a sequence of UTF-16 code units, so a string is modelled as a list
  of 16-bit words. Equality is equality of the code units, the default comparison of
  \<^verbatim>\<open>Array.prototype.sort\<close> is the lexicographic order of the code units (the order of
  the theory List_Lexorder of the library), and \<^verbatim>\<open>String.fromCharCode\<close> wraps modulo \<open>2^16\<close> as
  addition on \<^typ>\<open>16 word\<close> does. \<open>js\<close> embeds an ASCII literal.

  The integer columns of the database are modelled as \<^typ>\<open>int\<close>; a nullable column and an
  optional field are an \<^typ>\<open>'a option\<close>.
\<close>

type_synonym jstring = "16 word list"

definition js :: "string \<Rightarrow> jstring" where
  "js s = map of_char s"

text \<open>The two dashes of the report templates: U+2013 (en dash) and U+2014 (em dash).\<close>

definition en_dash :: jstring where
  "en_dash = [0x2013]"

definition em_dash :: jstring where
  "em_dash = [0x2014]"

text \<open>Truthiness of an optional string (\<^verbatim>\<open>if (filters.flangeSize)\<close>): present and not empty.\<close>

definition truthy_str :: "jstring option \<Rightarrow> bool" where
  "truthy_str s = (case s of None \<Rightarrow> False | Some t \<Rightarrow> t \<noteq> [])"

text \<open>Truthiness of an optional number (\<^verbatim>\<open>&& pressure\<close>): present and not zero.\<close>

definition truthy_num :: "int option \<Rightarrow> bool" where
  "truthy_num p = (case p of None \<Rightarrow> False | Some v \<Rightarrow> v \<noteq> 0)"

text \<open>Decimal rendering of an integer inside a template literal.\<close>

fun digit_str :: "nat \<Rightarrow> jstring" where
  "digit_str n = (if n < 10 then [of_nat (48 + n)] else digit_str (n div 10) @ [of_nat (48 + n mod 10)])"

declare digit_str.simps [simp del]

definition num_str :: "int \<Rightarrow> jstring" where
  "num_str i = (if i < 0 then js ''-'' @ digit_str (nat (- i)) else digit_str (nat i))"

text \<open>\<^verbatim>\<open>Array.prototype.join\<close>.\<close>

fun join :: "jstring \<Rightarrow> jstring list \<Rightarrow> jstring" where
  "join sep [] = []"
| "join sep [x] = x"
| "join sep (x # y # ys) = x @ sep @ join sep (y # ys)"

text \<open>
  \<^verbatim>\<open>Array.from(new Set(xs))\<close>: a \<^verbatim>\<open>Set\<close> keeps its elements in insertion order and ignores
  the insertion of an element it already holds.
\<close>

definition set_add :: "'a list \<Rightarrow> 'a \<Rightarrow> 'a list" where
  "set_add acc x = (if x \<in> set acc then acc else acc @ [x])"

definition from_set :: "'a list \<Rightarrow> 'a list" where
  "from_set xs = foldl set_add [] xs"

section \<open>shared/schema.ts\<close>

text \<open>The \<^verbatim>\<open>PartType\<close> enumeration: its values are plain strings.\<close>

definition ANNULAR :: jstring where "ANNULAR = js ''ANNULAR''"
definition SINGLE_RAM :: jstring where "SINGLE_RAM = js ''SINGLE_RAM''"
definition DOUBLE_RAMS :: jstring where "DOUBLE_RAMS = js ''DOUBLE_RAMS''"
definition MUD_CROSS :: jstring where "MUD_CROSS = js ''MUD_CROSS''"
definition ANACONDA_LINES :: jstring where "ANACONDA_LINES = js ''ANACONDA_LINES''"
definition ROTATING_HEAD :: jstring where "ROTATING_HEAD = js ''ROTATING_HEAD''"
definition ADAPTER_SPOOL_SIDE :: jstring where "ADAPTER_SPOOL_SIDE = js ''ADAPTER_SPOOL_SIDE''"

definition PartType_values :: "jstring list" where
  "PartType_values =
     [ANNULAR, SINGLE_RAM, DOUBLE_RAMS, MUD_CROSS, ANACONDA_LINES, ROTATING_HEAD, ADAPTER_SPOOL_SIDE]"

text \<open>Table \<^verbatim>\<open>flange_spec\<close>. Timestamps are milliseconds since the epoch.\<close>

record FlangeSpec =
  spec_id :: jstring
  nominalBore :: jstring
  pressureClassLabel :: jstring
  pressureClassPsi :: int
  boltCount :: int
  sizeOfBolts :: jstring
  wrenchNo :: int
  truckUnitPsi :: int
  ringNeeded :: jstring
  flangeSizeRaw :: jstring
  annularPressure :: "int option"
  singleRamPressure :: "int option"
  doubleRamsPressure :: "int option"
  mudCrossPressure :: "int option"
  spec_createdAt :: "int option"

text \<open>Table \<^verbatim>\<open>stack_header\<close>.\<close>

record StackHeader =
  stack_id :: jstring
  title :: "jstring option"
  stack_createdAt :: "int option"

text \<open>Table \<^verbatim>\<open>part_selection\<close>.\<close>

record PartSelection =
  part_id :: jstring
  stackId :: jstring
  partType :: jstring
  spoolGroupId :: "jstring option"
  pressureValue :: "int option"
  flangeSpecId :: jstring
  createdAt :: "int option"

text \<open>Table \<^verbatim>\<open>stack_order\<close>.\<close>

record StackOrder =
  order_stackId :: jstring
  partSelectionId :: jstring
  position :: int

section \<open>server/storage.ts: the catalog queries\<close>

text \<open>\<^verbatim>\<open>FlangeFilterOptions\<close>: every field is optional.\<close>

record FlangeFilterOptions =
  f_partType :: "jstring option"
  f_pressure :: "int option"
  f_flangeSize :: "jstring option"
  f_boltCount :: "int option"
  f_boltSize :: "jstring option"

text \<open>
  The condition pushed for a pressure-driven part type on its pressure column:
  \<^verbatim>\<open>eq(column, filters.pressure)\<close> when the pressure is given (false on a NULL column, as
  in SQL), \<^verbatim>\<open>isNotNull(column)\<close> otherwise.
\<close>

definition pressureCondition :: "(FlangeSpec \<Rightarrow> int option) \<Rightarrow> int option \<Rightarrow> FlangeSpec \<Rightarrow> bool" where
  "pressureCondition col p r = (case p of Some v \<Rightarrow> col r = Some v | None \<Rightarrow> col r \<noteq> None)"

text \<open>
  The \<^verbatim>\<open>switch (filters.partType)\<close> of \<^verbatim>\<open>getFlangeSpecs\<close>, entered only when the part
  type is truthy. \<open>None\<close> is the \<^verbatim>\<open>default\<close> branch, which returns the empty list at once;
  \<open>Some cs\<close> are the conditions pushed.
\<close>

definition partTypeConditions :: "FlangeFilterOptions \<Rightarrow> (FlangeSpec \<Rightarrow> bool) list option" where
  "partTypeConditions f =
     (if truthy_str (f_partType f) then
        (let pt = the (f_partType f) in
         if pt = ANNULAR then Some [pressureCondition annularPressure (f_pressure f)]
         else if pt = SINGLE_RAM then Some [pressureCondition singleRamPressure (f_pressure f)]
         else if pt = DOUBLE_RAMS then Some [pressureCondition doubleRamsPressure (f_pressure f)]
         else if pt = MUD_CROSS then Some [pressureCondition mudCrossPressure (f_pressure f)]
         else if pt = ANACONDA_LINES \<or> pt = ROTATING_HEAD \<or> pt = ADAPTER_SPOOL_SIDE then Some []
         else None)
      else Some [])"

text \<open>The conditions of the progressive narrowing, pushed after those of the part type.\<close>

definition narrowingConditions :: "FlangeFilterOptions \<Rightarrow> (FlangeSpec \<Rightarrow> bool) list" where
  "narrowingConditions f =
     (if truthy_str (f_flangeSize f) then [\<lambda>r. flangeSizeRaw r = the (f_flangeSize f)] else [])
     @ (if f_boltCount f \<noteq> None then [\<lambda>r. boltCount r = the (f_boltCount f)] else [])
     @ (if truthy_str (f_boltSize f) then [\<lambda>r. sizeOfBolts r = the (f_boltSize f)] else [])"

text \<open>
  The rows that the statement of \<^verbatim>\<open>DatabaseStorage.getFlangeSpecs\<close> selects from
  \<^verbatim>\<open>flange_spec\<close>. Without a filter object the table is returned as stored.
  \<^verbatim>\<open>where(and(...conditions))\<close> keeps the rows that satisfy every condition;
  \<^verbatim>\<open>orderBy(asc(flangeSizeRaw))\<close> sorts them on the size label. The database is free in the
  collation it compares the labels with and in the order of rows with equal labels: here
  the labels are compared by code units and rows with equal labels keep the order of the
  table. The numbers of the filter object
  are integers (what \<^verbatim>\<open>parseInt\<close> of the route gives for a string of digits).
\<close>

definition getFlangeSpecs :: "FlangeSpec list \<Rightarrow> FlangeFilterOptions option \<Rightarrow> FlangeSpec list" where
  "getFlangeSpecs tbl filters =
     (case filters of
        None \<Rightarrow> tbl
      | Some f \<Rightarrow>
          (case partTypeConditions f of
             None \<Rightarrow> []
           | Some cs \<Rightarrow>
               (let conditions = cs @ narrowingConditions f in
                if length conditions > 0
                then sort_key flangeSizeRaw (filter (\<lambda>r. list_all (\<lambda>c. c r) conditions) tbl)
                else sort_key flangeSizeRaw tbl)))"

text \<open>
  The call of \<^verbatim>\<open>DatabaseStorage.getFlangeSpecs\<close> against the database. The columns
  \<^verbatim>\<open>annular_pressure\<close>, \<^verbatim>\<open>single_ram_pressure\<close>, \<^verbatim>\<open>double_rams_pressure\<close>,
  \<^verbatim>\<open>mud_cross_pressure\<close> and \<^verbatim>\<open>bolt_count\<close> are \<^verbatim>\<open>integer\<close> columns, 32 bits wide. A
  number that \<^verbatim>\<open>eq(column, number)\<close> hands to the statement is a parameter of that type:
  when it does not fit, the database refuses the statement and the method raises (the route
  answers with status 500). The pressure reaches the statement only under one of the four
  part types with a pressure column, the bolt count whenever it is present; the early
  \<^verbatim>\<open>return []\<close> of an unknown part type comes before any statement.
\<close>

definition int32 :: "int \<Rightarrow> bool" where
  "int32 v = (- 2147483648 \<le> v \<and> v \<le> 2147483647)"

datatype query_error = NumericValueOutOfRange

definition boundNumbers :: "FlangeFilterOptions \<Rightarrow> int list" where
  "boundNumbers f =
     (if truthy_str (f_partType f) \<and> f_pressure f \<noteq> None
         \<and> (the (f_partType f) = ANNULAR \<or> the (f_partType f) = SINGLE_RAM
              \<or> the (f_partType f) = DOUBLE_RAMS \<or> the (f_partType f) = MUD_CROSS)
      then [the (f_pressure f)] else [])
     @ (if f_boltCount f \<noteq> None then [the (f_boltCount f)] else [])"

definition getFlangeSpecsCall ::
  "FlangeSpec list \<Rightarrow> FlangeFilterOptions option \<Rightarrow> query_error + FlangeSpec list" where
  "getFlangeSpecsCall tbl filters =
     (case filters of
        None \<Rightarrow> Inr (getFlangeSpecs tbl None)
      | Some f \<Rightarrow>
          if partTypeConditions f = None then Inr []
          else if list_all int32 (boundNumbers f) then Inr (getFlangeSpecs tbl (Some f))
          else Inl NumericValueOutOfRange)"

text \<open>
  \<^verbatim>\<open>DatabaseStorage.getPressureOptions\<close>: the pressure column of the part type, or the empty
  list for any other part type; then \<^verbatim>\<open>selectDistinct ... where isNotNull ... orderBy asc\<close>
  and the filter \<^verbatim>\<open>p > 0\<close>.
\<close>

definition pressureColumn :: "jstring \<Rightarrow> (FlangeSpec \<Rightarrow> int option) option" where
  "pressureColumn pt =
     (if pt = ANNULAR then Some annularPressure
      else if pt = SINGLE_RAM then Some singleRamPressure
      else if pt = DOUBLE_RAMS then Some doubleRamsPressure
      else if pt = MUD_CROSS then Some mudCrossPressure
      else None)"

definition getPressureOptions :: "FlangeSpec list \<Rightarrow> jstring \<Rightarrow> int list" where
  "getPressureOptions tbl pt =
     (case pressureColumn pt of
        None \<Rightarrow> []
      | Some col \<Rightarrow>
          (let results = sort (remdups (map the (filter (\<lambda>p. p \<noteq> None) (map col tbl))))
           in filter (\<lambda>p. p > 0) results))"

section \<open>client: PartConfiguration\<close>

text \<open>
  The option lists of the dropdowns, computed from \<^verbatim>\<open>flangeOptions\<close>, the answer of
  \<^verbatim>\<open>/api/options/flanges\<close> for the filters chosen so far.
\<close>

definition uniqueFlangeSizes :: "FlangeSpec list \<Rightarrow> jstring list" where
  "uniqueFlangeSizes flangeOptions = from_set (map flangeSizeRaw flangeOptions)"

definition uniqueBoltCounts :: "FlangeSpec list \<Rightarrow> int list" where
  "uniqueBoltCounts flangeOptions = from_set (map boltCount flangeOptions)"

definition uniqueBoltSizes :: "FlangeSpec list \<Rightarrow> jstring list" where
  "uniqueBoltSizes flangeOptions = from_set (map sizeOfBolts flangeOptions)"

section \<open>server/storage.ts: stacks, part selections and their order\<close>

text \<open>
  The tables the storage layer reads and writes. Identifiers are opaque strings (the
  syntax the uuid columns demand is not modelled). The rows of a table are kept in insertion
  order.
\<close>

record Database =
  flange_spec :: "FlangeSpec list"
  stack_header :: "StackHeader list"
  part_selection :: "PartSelection list"
  stack_order :: "StackOrder list"


text \<open>
  A statement the database refuses raises in the storage method; the routes answer it with
  status 500. \<open>BadRequest\<close> is the status 400 of a route, \<open>NoStackSelected\<close> the
  error the client raises itself.
\<close>

datatype error = ForeignKeyViolation | UniqueViolation | BadRequest | NoStackSelected

text \<open>\<^verbatim>\<open>PartSelection & { flangeSpec: FlangeSpec }\<close>.\<close>

record PartWithFlangeSpec = PartSelection +
  flangeSpec :: FlangeSpec

text \<open>\<^verbatim>\<open>getFlangeSpecById\<close> and \<^verbatim>\<open>getStack\<close>: the first row with the identifier, if any.\<close>

definition getFlangeSpecById :: "Database \<Rightarrow> jstring \<Rightarrow> FlangeSpec option" where
  "getFlangeSpecById db i = find (\<lambda>s. spec_id s = i) (flange_spec db)"

definition getStack :: "Database \<Rightarrow> jstring \<Rightarrow> StackHeader option" where
  "getStack db i = find (\<lambda>s. stack_id s = i) (stack_header db)"






text \<open>
  \<^verbatim>\<open>addPartToStack\<close>. The id and the creation time of the new row are the column defaults
  \<^verbatim>\<open>gen_random_uuid()\<close> and \<^verbatim>\<open>now()\<close>, given here as arguments. The insert is refused when
  the stack or the specification it references does not exist, or when the id is taken.
  The new order row gets the largest position of the stack plus one, or 0.
\<close>

record InsertPartSelection =
  ins_stackId :: jstring
  ins_partType :: jstring
  ins_spoolGroupId :: "jstring option"
  ins_pressureValue :: "int option"
  ins_flangeSpecId :: jstring

definition nextPosition :: "Database \<Rightarrow> jstring \<Rightarrow> int" where
  "nextPosition db sid =
     (let existingOrders = map position (filter (\<lambda>ord. order_stackId ord = sid) (stack_order db))
      in if length existingOrders > 0 then fold max existingOrders (hd existingOrders) + 1 else 0)"

definition addPartToStack ::
  "jstring \<Rightarrow> int \<Rightarrow> Database \<Rightarrow> InsertPartSelection \<Rightarrow> error + (PartSelection \<times> Database)" where
  "addPartToStack newId now db part =
     (if getStack db (ins_stackId part) = None \<or> getFlangeSpecById db (ins_flangeSpecId part) = None
      then Inl ForeignKeyViolation
      else if newId \<in> set (map part_id (part_selection db)) then Inl UniqueViolation
      else
        (let created = \<lparr>part_id = newId, stackId = ins_stackId part, partType = ins_partType part,
                          spoolGroupId = ins_spoolGroupId part, pressureValue = ins_pressureValue part,
                          flangeSpecId = ins_flangeSpecId part, createdAt = Some now\<rparr>;
             db1 = db\<lparr>part_selection := part_selection db @ [created]\<rparr>;
             db2 = db1\<lparr>stack_order := stack_order db1 @
                     [\<lparr>order_stackId = ins_stackId part, partSelectionId = newId,
                       position = nextPosition db1 (ins_stackId part)\<rparr>]\<rparr>
         in Inr (created, db2)))"

text \<open>
  \<^verbatim>\<open>removePartFromStack\<close>: the row of the part is deleted, and with it (\<^verbatim>\<open>onDelete:
  "cascade"\<close>) the order rows that reference it.
\<close>

definition removePartFromStack :: "Database \<Rightarrow> jstring \<Rightarrow> Database" where
  "removePartFromStack db partId =
     db\<lparr>part_selection := filter (\<lambda>p. part_id p \<noteq> partId) (part_selection db),
        stack_order := filter (\<lambda>ord. partSelectionId ord \<noteq> partId) (stack_order db)\<rparr>"

text \<open>
  \<^verbatim>\<open>updateStackOrder\<close>: two statements, each committed on its own. The delete removes the
  order rows of the stack. The insert stores one row per supplied id with its index as
  position; it is refused as a whole when the stack or one of the ids does not exist
  (the foreign keys of \<^verbatim>\<open>stack_order\<close>), and then the delete has already happened.
  The schema declares no uniqueness on \<^verbatim>\<open>stack_order\<close>.
\<close>

definition insertStackOrders :: "Database \<Rightarrow> StackOrder list \<Rightarrow> (error + unit) \<times> Database" where
  "insertStackOrders db vs =
     (if list_all (\<lambda>v. getStack db (order_stackId v) \<noteq> None
                      \<and> partSelectionId v \<in> set (map part_id (part_selection db))) vs
      then (Inr (), db\<lparr>stack_order := stack_order db @ vs\<rparr>)
      else (Inl ForeignKeyViolation, db))"

definition updateStackOrder :: "Database \<Rightarrow> jstring \<Rightarrow> jstring list \<Rightarrow> (error + unit) \<times> Database" where
  "updateStackOrder db sid orderedPartIds =
     (let db1 = db\<lparr>stack_order := filter (\<lambda>ord. order_stackId ord \<noteq> sid) (stack_order db)\<rparr>
      in if length orderedPartIds > 0
         then insertStackOrders db1
                (map (\<lambda>(partId, index). \<lparr>order_stackId = sid, partSelectionId = partId, position = int index\<rparr>)
                   (zip orderedPartIds [0..<length orderedPartIds]))
         else (Inr (), db1))"

section \<open>server/routes.ts\<close>

text \<open>
  \<^verbatim>\<open>PATCH /api/stack/:id/order\<close>. The body is JSON: \<open>None\<close> stands for an
  \<^verbatim>\<open>orderedPartIds\<close> that is not an array, the only input the route refuses itself.
\<close>

definition patch_stack_order :: "Database \<Rightarrow> jstring \<Rightarrow> jstring list option \<Rightarrow> (error + unit) \<times> Database" where
  "patch_stack_order db sid body =
     (case body of
        None \<Rightarrow> (Inl BadRequest, db)
      | Some orderedPartIds \<Rightarrow> updateStackOrder db sid orderedPartIds)"

text \<open>
  \<^verbatim>\<open>POST /api/stack/:id/items\<close>: the part is the body with the stack of the path; a
  specification that does not exist is answered with status 400 before anything is stored.
  The check of the body against \<^verbatim>\<open>insertPartSelectionSchema\<close> is not modelled: the bodies
  are taken to be well formed, their identifiers standing for uuids.
\<close>

definition post_stack_items ::
  "jstring \<Rightarrow> int \<Rightarrow> Database \<Rightarrow> jstring \<Rightarrow> InsertPartSelection \<Rightarrow> error + (PartSelection \<times> Database)" where
  "post_stack_items newId now db sid body =
     (let validatedPart = body\<lparr>ins_stackId := sid\<rparr>
      in if getFlangeSpecById db (ins_flangeSpecId validatedPart) = None then Inl BadRequest
         else addPartToStack newId now db validatedPart)"

text \<open>\<^verbatim>\<open>DELETE /api/stack/:stackId/items/:partId\<close>.\<close>

definition delete_stack_item :: "Database \<Rightarrow> jstring \<Rightarrow> jstring \<Rightarrow> Database" where
  "delete_stack_item db sid partId = removePartFromStack db partId"

section \<open>client: useStack\<close>

text \<open>\<^verbatim>\<open>PartSelectionData\<close>; a side is its \<^verbatim>\<open>flangeSpecId\<close> and its \<^verbatim>\<open>pressureValue\<close>.\<close>

record PartSelectionData =
  pd_partType :: jstring
  pd_flangeSpecId :: "jstring option"
  pd_pressureValue :: "int option"
  pd_spoolGroupId :: "jstring option"
  pd_sides :: "(jstring \<times> int option) list option"

text \<open>
  The loop over the sides of an adapter spool: one request per side, awaited in turn. A
  request that fails throws, which ends the loop; what the earlier requests stored stays.
  \<open>gen n\<close> is the id and the time the database gives to the row of the \<open>n\<close>-th request.
\<close>

fun post_sides ::
  "(nat \<Rightarrow> jstring \<times> int) \<Rightarrow> nat \<Rightarrow> Database \<Rightarrow> jstring \<Rightarrow> jstring option \<Rightarrow>
   (jstring \<times> int option) list \<Rightarrow> PartSelection list \<Rightarrow> (error + PartSelection list) \<times> Database" where
  "post_sides gen n db sid gid [] responses = (Inr responses, db)"
| "post_sides gen n db sid gid (side # sides) responses =
     (case post_stack_items (fst (gen n)) (snd (gen n)) db sid
             \<lparr>ins_stackId = sid, ins_partType = ADAPTER_SPOOL_SIDE, ins_spoolGroupId = gid,
              ins_pressureValue = snd side, ins_flangeSpecId = fst side\<rparr> of
        Inl e \<Rightarrow> (Inl e, db)
      | Inr (created, db') \<Rightarrow> post_sides gen (Suc n) db' sid gid sides (responses @ [created]))"

text \<open>
  \<^verbatim>\<open>addPartMutation.mutationFn\<close>. A part without \<^verbatim>\<open>flangeSpecId\<close> does not pass the
  validation of the route.
\<close>

definition addPartMutation ::
  "(nat \<Rightarrow> jstring \<times> int) \<Rightarrow> Database \<Rightarrow> jstring option \<Rightarrow> PartSelectionData \<Rightarrow>
   (error + PartSelection list) \<times> Database" where
  "addPartMutation gen db currentStackId partData =
     (case currentStackId of
        None \<Rightarrow> (Inl NoStackSelected, db)
      | Some sid \<Rightarrow>
          if pd_partType partData = ADAPTER_SPOOL_SIDE \<and> pd_sides partData \<noteq> None
          then post_sides gen 0 db sid (pd_spoolGroupId partData) (the (pd_sides partData)) []
          else (case pd_flangeSpecId partData of
                  None \<Rightarrow> (Inl BadRequest, db)
                | Some fid \<Rightarrow>
                    (case post_stack_items (fst (gen 0)) (snd (gen 0)) db sid
                            \<lparr>ins_stackId = sid, ins_partType = pd_partType partData,
                             ins_spoolGroupId = pd_spoolGroupId partData,
                             ins_pressureValue = pd_pressureValue partData, ins_flangeSpecId = fid\<rparr> of
                       Inl e \<Rightarrow> (Inl e, db)
                     | Inr (created, db') \<Rightarrow> (Inr [created], db'))))"

section \<open>server/services/pdfGenerator.ts\<close>

text \<open>
  \<^verbatim>\<open>names[partType] || partType\<close>: the label of a known part type, the part type itself
  otherwise (properties inherited by the object literal are not modelled).
\<close>

definition baseName :: "jstring \<Rightarrow> jstring" where
  "baseName pt =
     (if pt = ANNULAR then js ''Annular''
      else if pt = SINGLE_RAM then js ''Single B.O.P (RAM)''
      else if pt = DOUBLE_RAMS then js ''Double B.O.P (RAMs)''
      else if pt = MUD_CROSS then js ''Mud Cross''
      else if pt = ANACONDA_LINES then js ''Anaconda Lines''
      else if pt = ROTATING_HEAD then js ''Rotating Head''
      else if pt = ADAPTER_SPOOL_SIDE then js ''Adapter Spool''
      else pt)"

definition pressureDrivenParts :: "jstring list" where
  "pressureDrivenParts = [ANNULAR, SINGLE_RAM, DOUBLE_RAMS, MUD_CROSS]"

definition getPartDisplayName :: "jstring \<Rightarrow> int option \<Rightarrow> jstring" where
  "getPartDisplayName pt pressure =
     (if pt \<in> set pressureDrivenParts \<and> truthy_num pressure
      then baseName pt @ js '' '' @ en_dash @ js '' Pressure '' @ num_str (the pressure)
      else baseName pt)"

text \<open>The text both line templates end with, from the dash before \<^verbatim>\<open>Ring:\<close> on.\<close>

definition flangeSpecText :: "FlangeSpec \<Rightarrow> jstring" where
  "flangeSpecText s =
     js '' '' @ en_dash @ js '' Ring: '' @ ringNeeded s
     @ js '' | Size of Bolts: '' @ sizeOfBolts s
     @ js '' | # Bolts: '' @ num_str (boltCount s)
     @ js '' | Flange: '' @ flangeSizeRaw s
     @ js '' | Wrench Required: '' @ num_str (wrenchNo s)
     @ js '' | Set Truck PSI to: '' @ num_str (truckUnitPsi s)"

definition regularLine :: "PartWithFlangeSpec \<Rightarrow> jstring" where
  "regularLine part =
     getPartDisplayName (partType part) (pressureValue part) @ flangeSpecText (flangeSpec part)"

definition spoolLine :: "16 word \<Rightarrow> nat \<Rightarrow> PartWithFlangeSpec \<Rightarrow> jstring" where
  "spoolLine spoolLetter sideNumber side =
     js ''Adapter Spool '' @ [spoolLetter] @ js '' '' @ em_dash @ js '' Side ''
     @ num_str (int sideNumber) @ flangeSpecText (flangeSpec side)"

text \<open>
  \<^verbatim>\<open>spoolGroups\<close> is a \<^verbatim>\<open>Map\<close>: its entries are in the order in which the keys were first
  set. \<open>spool_push\<close> is \<^verbatim>\<open>if (!has(k)) set(k, []); get(k).push(part)\<close>.
\<close>

type_synonym spool_groups = "(jstring \<times> PartWithFlangeSpec list) list"

definition spool_push :: "spool_groups \<Rightarrow> jstring \<Rightarrow> PartWithFlangeSpec \<Rightarrow> spool_groups" where
  "spool_push spoolGroups k part =
     (if k \<in> set (map fst spoolGroups)
      then map (\<lambda>(k', sides). if k' = k then (k', sides @ [part]) else (k', sides)) spoolGroups
      else spoolGroups @ [(k, [part])])"

text \<open>The first loop of \<^verbatim>\<open>generateReportLines\<close>, over the parts of the stack.\<close>

fun group_parts :: "PartWithFlangeSpec list \<Rightarrow> spool_groups \<times> PartWithFlangeSpec list \<Rightarrow>
    spool_groups \<times> PartWithFlangeSpec list" where
  "group_parts [] acc = acc"
| "group_parts (part # rest) (spoolGroups, regularParts) =
     (if partType part = ADAPTER_SPOOL_SIDE \<and> truthy_str (spoolGroupId part)
      then group_parts rest (spool_push spoolGroups (the (spoolGroupId part)) part, regularParts)
      else group_parts rest (spoolGroups, regularParts @ [part]))"

text \<open>
  \<^verbatim>\<open>(a.createdAt?.getTime() || 0)\<close>, the key of the sort of the sides of a group; the sort
  of an array is stable.
\<close>

definition createdTime :: "PartWithFlangeSpec \<Rightarrow> int" where
  "createdTime side = (case createdAt side of None \<Rightarrow> 0 | Some t \<Rightarrow> t)"

definition sortSides :: "PartWithFlangeSpec list \<Rightarrow> PartWithFlangeSpec list" where
  "sortSides spoolSides = sort_key createdTime spoolSides"

text \<open>
  The last loop, over the entries of \<^verbatim>\<open>spoolGroups\<close>. \<^verbatim>\<open>spoolLetter\<close> is a string of one
  code unit throughout, kept here as that code unit; \<^verbatim>\<open>String.fromCharCode(c + 1)\<close> is
  the successor modulo \<open>2^16\<close>.
\<close>

fun spoolGroupLines :: "16 word \<Rightarrow> spool_groups \<Rightarrow> jstring list" where
  "spoolGroupLines spoolLetter [] = []"
| "spoolGroupLines spoolLetter ((groupId, spoolSides) # rest) =
     map (\<lambda>(side, index). spoolLine spoolLetter (index + 1) side)
         (zip (sortSides spoolSides) [0..<length spoolSides])
     @ spoolGroupLines (spoolLetter + 1) rest"

definition generateReportLines :: "StackHeader \<times> PartWithFlangeSpec list \<Rightarrow> jstring list" where
  "generateReportLines stackData =
     (let (spoolGroups, regularParts) = group_parts (snd stackData) ([], [])
      in map regularLine regularParts @ spoolGroupLines 0x41 spoolGroups)"

text \<open>\<^verbatim>\<open>Math.min(...xs)\<close> and \<^verbatim>\<open>Math.max(...xs)\<close> of a non-empty array.\<close>

definition math_min :: "int list \<Rightarrow> int" where
  "math_min xs = fold min (tl xs) (hd xs)"

definition math_max :: "int list \<Rightarrow> int" where
  "math_max xs = fold max (tl xs) (hd xs)"

definition getPressureRanges :: "PartWithFlangeSpec list \<Rightarrow> jstring" where
  "getPressureRanges parts =
     (let pressures = sort (map the (filter (\<lambda>p. truthy_num p \<and> the p > 0) (map pressureValue parts)))
      in if length pressures = 0 then js ''N/A''
         else (let mn = math_min pressures; mx = math_max pressures
               in if mn = mx then num_str mn @ js '' PSI''
                  else num_str mn @ js ''-'' @ num_str mx @ js '' PSI''))"

definition getFlangeClasses :: "PartWithFlangeSpec list \<Rightarrow> jstring" where
  "getFlangeClasses parts =
     (let classes = sort (from_set (map (\<lambda>p. pressureClassLabel (flangeSpec p)) parts));
          joined = join (js '', '') classes
      in if joined = [] then js ''N/A'' else joined)"

text \<open>
  The three values \<^verbatim>\<open>generateReportHTML\<close> puts into the summary grid: \<^verbatim>\<open>parts.length\<close>,
  \<^verbatim>\<open>getPressureRanges(parts)\<close> and \<^verbatim>\<open>getFlangeClasses(parts)\<close>.
\<close>

definition reportSummary :: "StackHeader \<times> PartWithFlangeSpec list \<Rightarrow> nat \<times> jstring \<times> jstring" where
  "reportSummary stackData =
     (length (snd stackData), getPressureRanges (snd stackData), getFlangeClasses (snd stackData))"

section \<open>Notions used in the statements\<close>

text \<open>
  The members of a stack (the ids of its part selections), its position assignment (the
  part and the position of each of its order rows) and the part selections that share a
  group identifier.
\<close>

definition stackMembers :: "Database \<Rightarrow> jstring \<Rightarrow> jstring list" where
  "stackMembers db sid = map part_id (filter (\<lambda>p. stackId p = sid) (part_selection db))"

definition stackPositions :: "Database \<Rightarrow> jstring \<Rightarrow> (jstring \<times> int) list" where
  "stackPositions db sid =
     map (\<lambda>ord. (partSelectionId ord, position ord))
       (filter (\<lambda>ord. order_stackId ord = sid) (stack_order db))"

definition groupMembers :: "Database \<Rightarrow> jstring \<Rightarrow> PartSelection list" where
  "groupMembers db g = filter (\<lambda>p. spoolGroupId p = Some g) (part_selection db)"



text \<open>
  What \<^verbatim>\<open>handleComplete\<close> of the part configuration hands to \<^verbatim>\<open>addPartMutation\<close> for an
  adapter spool with the group \<open>g\<close> and the specifications \<open>f1\<close> and \<open>f2\<close> of its sides, and
  the body of the request the loop then sends for one side.
\<close>

definition spoolData :: "jstring \<Rightarrow> jstring \<Rightarrow> jstring \<Rightarrow> PartSelectionData" where
  "spoolData g f1 f2 =
     \<lparr>pd_partType = ADAPTER_SPOOL_SIDE, pd_flangeSpecId = None, pd_pressureValue = None,
      pd_spoolGroupId = Some g, pd_sides = Some [(f1, None), (f2, None)]\<rparr>"

definition sideBody :: "jstring \<Rightarrow> jstring \<Rightarrow> jstring \<Rightarrow> InsertPartSelection" where
  "sideBody sid g f =
     \<lparr>ins_stackId = sid, ins_partType = ADAPTER_SPOOL_SIDE, ins_spoolGroupId = Some g,
      ins_pressureValue = None, ins_flangeSpecId = f\<rparr>"

text \<open>
  Notions to state what a report holds. A part is a grouped spool side when the first loop
  of \<^verbatim>\<open>generateReportLines\<close> puts it into \<^verbatim>\<open>spoolGroups\<close>. \<open>groupIds\<close> are the group
  identifiers of the report, each once, in the order of their first appearance in the
  stack; \<open>groupSides\<close> are the grouped spool sides of one group, in stack order;
  \<open>groupLetter k\<close> is the code unit \<open>k\<close> places after \<open>A\<close>, modulo \<open>2^16\<close>; \<open>groupBlock\<close> are
  the lines of one group under a letter: one line per side, the sides sorted by creation
  time and numbered from 1. \<open>groups_of\<close> is the content of \<^verbatim>\<open>spoolGroups\<close> after the
  first loop.
\<close>

definition isSpoolSide :: "PartWithFlangeSpec \<Rightarrow> bool" where
  "isSpoolSide p = (partType p = ADAPTER_SPOOL_SIDE \<and> truthy_str (spoolGroupId p))"

definition groupIds :: "PartWithFlangeSpec list \<Rightarrow> jstring list" where
  "groupIds parts = from_set (map (\<lambda>p. the (spoolGroupId p)) (filter isSpoolSide parts))"

definition groupSides :: "PartWithFlangeSpec list \<Rightarrow> jstring \<Rightarrow> PartWithFlangeSpec list" where
  "groupSides parts g = filter (\<lambda>p. isSpoolSide p \<and> spoolGroupId p = Some g) parts"

definition groupLetter :: "nat \<Rightarrow> 16 word" where
  "groupLetter k = 0x41 + of_nat k"

definition groupBlock :: "16 word \<Rightarrow> PartWithFlangeSpec list \<Rightarrow> jstring list" where
  "groupBlock letter sides =
     map (\<lambda>(side, index). spoolLine letter (index + 1) side) (zip (sortSides sides) [0..<length sides])"

definition groups_of :: "PartWithFlangeSpec list \<Rightarrow> spool_groups" where
  "groups_of S = map (\<lambda>g. (g, filter (\<lambda>p. spoolGroupId p = Some g) S))
                   (from_set (map (\<lambda>p. the (spoolGroupId p)) S))"

text \<open>
  A part with a stray pressure value: the stored value is replaced by \<open>x p\<close> unless the part
  type is pressure-driven.
\<close>

definition withStrayPressure ::
  "(PartWithFlangeSpec \<Rightarrow> int option) \<Rightarrow> PartWithFlangeSpec \<Rightarrow> PartWithFlangeSpec" where
  "withStrayPressure x p = (if partType p \<in> set pressureDrivenParts then p else p\<lparr>pressureValue := x p\<rparr>)"

text \<open>The pressure values of the parts that are not NULL and strictly positive.\<close>

definition positivePressures :: "PartWithFlangeSpec list \<Rightarrow> int set" where
  "positivePressures parts = {v \<in> set (List.map_filter pressureValue parts). 0 < v}"

section \<open>Example data\<close>

text \<open>
  Two records of the catalog that differ in the bolt count only, both usable for an annular
  at 5000 PSI.
\<close>

definition specA :: FlangeSpec where
  "specA = \<lparr>spec_id = js ''spec-a'', nominalBore = js ''13-5/8'', pressureClassLabel = js ''5M'',
            pressureClassPsi = 5000, boltCount = 8, sizeOfBolts = js ''1-1/8'', wrenchNo = 3,
            truckUnitPsi = 1500, ringNeeded = js ''BX-160'', flangeSizeRaw = js ''13-5/8 5M'',
            annularPressure = Some 5000, singleRamPressure = None, doubleRamsPressure = None,
            mudCrossPressure = None, spec_createdAt = None\<rparr>"

definition specB :: FlangeSpec where
  "specB = specA\<lparr>spec_id := js ''spec-b'', boltCount := 12\<rparr>"

definition demo_catalog :: "FlangeSpec list" where
  "demo_catalog = [specA, specB]"

definition no_filters :: FlangeFilterOptions where
  "no_filters = \<lparr>f_partType = None, f_pressure = None, f_flangeSize = None,
                 f_boltCount = None, f_boltSize = None\<rparr>"

text \<open>The ids and times the database gives to the rows of two requests in a row.\<close>

definition demo_gen :: "nat \<Rightarrow> jstring \<times> int" where
  "demo_gen n = (if n = 0 then (js ''n1'', 10) else (js ''n2'', 11))"

text \<open>A stack of two parts, an annular on top of a rotating head.\<close>

definition demo_stack :: StackHeader where
  "demo_stack = \<lparr>stack_id = js ''s1'', title = Some (js ''B.O.P Stack''), stack_createdAt = Some 0\<rparr>"

definition part1 :: PartSelection where
  "part1 = \<lparr>part_id = js ''p1'', stackId = js ''s1'', partType = ANNULAR, spoolGroupId = None,
            pressureValue = Some 5000, flangeSpecId = js ''spec-a'', createdAt = Some 1\<rparr>"

definition part2 :: PartSelection where
  "part2 = \<lparr>part_id = js ''p2'', stackId = js ''s1'', partType = ROTATING_HEAD, spoolGroupId = None,
            pressureValue = None, flangeSpecId = js ''spec-b'', createdAt = Some 2\<rparr>"

definition demo_db :: Database where
  "demo_db = \<lparr>flange_spec = demo_catalog, stack_header = [demo_stack],
              part_selection = [part1, part2],
              stack_order = [\<lparr>order_stackId = js ''s1'', partSelectionId = js ''p1'', position = 0\<rparr>,
                             \<lparr>order_stackId = js ''s1'', partSelectionId = js ''p2'', position = 1\<rparr>]\<rparr>"

text \<open>A stack that holds the two sides of one adapter spool.\<close>

definition side1 :: PartSelection where
  "side1 = \<lparr>part_id = js ''p1'', stackId = js ''s1'', partType = ADAPTER_SPOOL_SIDE,
            spoolGroupId = Some (js ''g1''), pressureValue = None, flangeSpecId = js ''spec-a'',
            createdAt = Some 1\<rparr>"

definition side2 :: PartSelection where
  "side2 = \<lparr>part_id = js ''p2'', stackId = js ''s1'', partType = ADAPTER_SPOOL_SIDE,
            spoolGroupId = Some (js ''g1''), pressureValue = None, flangeSpecId = js ''spec-b'',
            createdAt = Some 2\<rparr>"

definition spool_db :: Database where
  "spool_db = demo_db\<lparr>part_selection := [side1, side2]\<rparr>"

text \<open>
  Parts as \<^verbatim>\<open>getStackWithParts\<close> returns them: the annular and the two spool sides of the
  stacks above, and the annular with the pressure value 0.
\<close>

definition annular_part :: PartWithFlangeSpec where
  "annular_part = PartSelection.extend part1 (PartWithFlangeSpec.fields specA)"

definition spool_part1 :: PartWithFlangeSpec where
  "spool_part1 = PartSelection.extend side1 (PartWithFlangeSpec.fields specA)"

definition spool_part2 :: PartWithFlangeSpec where
  "spool_part2 = PartSelection.extend side2 (PartWithFlangeSpec.fields specB)"

definition zero_part :: PartWithFlangeSpec where
  "zero_part = annular_part\<lparr>pressureValue := Some 0\<rparr>"

section \<open>Properties of the catalog queries\<close>

lemmas part_type_defs = ANNULAR_def SINGLE_RAM_def DOUBLE_RAMS_def MUD_CROSS_def
  ANACONDA_LINES_def ROTATING_HEAD_def ADAPTER_SPOOL_SIDE_def

lemmas engine_defs = getFlangeSpecs_def partTypeConditions_def narrowingConditions_def
  pressureCondition_def truthy_str_def demo_catalog_def specA_def specB_def no_filters_def
  part_type_defs js_def Let_def

lemma pressure_values_sorted:
  "sorted_wrt (<) (filter (\<lambda>p. p > 0) (sort (remdups (xs :: int list))))"
  by (simp add: sorted_wrt_filter strict_sorted_iff)

lemma getPressureOptions_col:
  assumes "pressureColumn pt = Some col"
  shows "sorted_wrt (<) (getPressureOptions tbl pt)"
    and "set (getPressureOptions tbl pt) = {v. 0 < v \<and> (\<exists>r\<in>set tbl. col r = Some v)}"
proof -
  show "sorted_wrt (<) (getPressureOptions tbl pt)"
    using assms by (simp add: getPressureOptions_def pressure_values_sorted)
  show "set (getPressureOptions tbl pt) = {v. 0 < v \<and> (\<exists>r\<in>set tbl. col r = Some v)}"
    using assms by (auto simp: getPressureOptions_def image_iff)
qed

lemma pressureColumn_simps:
  "pressureColumn ANNULAR = Some annularPressure"
  "pressureColumn SINGLE_RAM = Some singleRamPressure"
  "pressureColumn DOUBLE_RAMS = Some doubleRamsPressure"
  "pressureColumn MUD_CROSS = Some mudCrossPressure"
  "pt \<noteq> ANNULAR \<Longrightarrow> pt \<noteq> SINGLE_RAM \<Longrightarrow> pt \<noteq> DOUBLE_RAMS \<Longrightarrow> pt \<noteq> MUD_CROSS \<Longrightarrow> pressureColumn pt = None"
  by (simp_all add: pressureColumn_def part_type_defs js_def)

text \<open>
  Claim C5. For a pressure-driven part type the pressure options are the values of its
  pressure column over the whole table that are not NULL and strictly positive, in strictly
  ascending order (hence without duplicates, and never zero or negative); for every other
  part type, known or not, the result is the empty list whatever the table holds.
\<close>

theorem getPressureOptions_spec:
  "sorted_wrt (<) (getPressureOptions tbl pt)
   \<and> (\<forall>v\<in>set (getPressureOptions tbl pt). 0 < v)
   \<and> set (getPressureOptions tbl ANNULAR) = {v. 0 < v \<and> (\<exists>r\<in>set tbl. annularPressure r = Some v)}
   \<and> set (getPressureOptions tbl SINGLE_RAM) = {v. 0 < v \<and> (\<exists>r\<in>set tbl. singleRamPressure r = Some v)}
   \<and> set (getPressureOptions tbl DOUBLE_RAMS) = {v. 0 < v \<and> (\<exists>r\<in>set tbl. doubleRamsPressure r = Some v)}
   \<and> set (getPressureOptions tbl MUD_CROSS) = {v. 0 < v \<and> (\<exists>r\<in>set tbl. mudCrossPressure r = Some v)}
   \<and> (pt \<noteq> ANNULAR \<and> pt \<noteq> SINGLE_RAM \<and> pt \<noteq> DOUBLE_RAMS \<and> pt \<noteq> MUD_CROSS \<longrightarrow> getPressureOptions tbl pt = [])"
proof -
  have s: "sorted_wrt (<) (getPressureOptions tbl pt)"
    by (cases "pressureColumn pt") (simp_all add: getPressureOptions_col(1), simp add: getPressureOptions_def)
  have p: "\<forall>v\<in>set (getPressureOptions tbl pt). 0 < v"
    by (cases "pressureColumn pt") (simp_all add: getPressureOptions_def)
  have e: "pt \<noteq> ANNULAR \<and> pt \<noteq> SINGLE_RAM \<and> pt \<noteq> DOUBLE_RAMS \<and> pt \<noteq> MUD_CROSS \<longrightarrow> getPressureOptions tbl pt = []"
    by (simp add: getPressureOptions_def pressureColumn_simps(5))
  show ?thesis
    using s p e getPressureOptions_col(2)[OF pressureColumn_simps(1)]
      getPressureOptions_col(2)[OF pressureColumn_simps(2)]
      getPressureOptions_col(2)[OF pressureColumn_simps(3)]
      getPressureOptions_col(2)[OF pressureColumn_simps(4)]
    by blast
qed

theorem getPressureOptions_spec_witness:
  "(ROTATING_HEAD \<noteq> ANNULAR \<and> ROTATING_HEAD \<noteq> SINGLE_RAM
      \<and> ROTATING_HEAD \<noteq> DOUBLE_RAMS \<and> ROTATING_HEAD \<noteq> MUD_CROSS)
   \<and> getPressureOptions demo_catalog ROTATING_HEAD = []
   \<and> set (getPressureOptions demo_catalog ANNULAR) = {5000}"
proof -
  have h: "ROTATING_HEAD \<noteq> ANNULAR \<and> ROTATING_HEAD \<noteq> SINGLE_RAM
      \<and> ROTATING_HEAD \<noteq> DOUBLE_RAMS \<and> ROTATING_HEAD \<noteq> MUD_CROSS"
    by (simp add: part_type_defs js_def)
  have v: "{v. 0 < v \<and> (\<exists>r\<in>set demo_catalog. annularPressure r = Some v)} = {5000}"
    by (auto simp: demo_catalog_def specA_def specB_def)
  show ?thesis
    using h v getPressureOptions_spec [of demo_catalog ROTATING_HEAD] by simp
qed

lemma getFlangeSpecs_eq:
  "getFlangeSpecs tbl (Some f) =
     (case partTypeConditions f of
        None \<Rightarrow> []
      | Some cs \<Rightarrow> sort_key flangeSizeRaw
          (filter (\<lambda>r. list_all (\<lambda>c. c r) cs \<and> list_all (\<lambda>c. c r) (narrowingConditions f)) tbl))"
  by (simp add: getFlangeSpecs_def Let_def split: option.split)

lemma mem_getFlangeSpecs:
  "r \<in> set (getFlangeSpecs tbl (Some f)) \<longleftrightarrow>
     (\<exists>cs. partTypeConditions f = Some cs \<and> r \<in> set tbl
           \<and> list_all (\<lambda>c. c r) cs \<and> list_all (\<lambda>c. c r) (narrowingConditions f))"
  by (cases "partTypeConditions f") (auto simp: getFlangeSpecs_eq)

lemma narrowing_iff:
  "list_all (\<lambda>c. c r) (narrowingConditions f) \<longleftrightarrow>
     (truthy_str (f_flangeSize f) \<longrightarrow> flangeSizeRaw r = the (f_flangeSize f))
     \<and> (f_boltCount f \<noteq> None \<longrightarrow> boltCount r = the (f_boltCount f))
     \<and> (truthy_str (f_boltSize f) \<longrightarrow> sizeOfBolts r = the (f_boltSize f))"
  by (simp add: narrowingConditions_def)

lemma partTypeConditions_cong:
  "f_partType g = f_partType f \<Longrightarrow> f_pressure g = f_pressure f \<Longrightarrow>
   partTypeConditions g = partTypeConditions f"
  by (simp add: partTypeConditions_def Let_def)

lemma set_foldl_set_add: "set (foldl set_add acc xs) = set acc \<union> set xs"
  by (induction xs arbitrary: acc) (auto simp: set_add_def)

lemma distinct_foldl_set_add: "distinct acc \<Longrightarrow> distinct (foldl set_add acc xs)"
  by (induction xs arbitrary: acc) (auto simp: set_add_def)

lemma set_from_set: "set (from_set xs) = set xs"
  by (simp add: from_set_def set_foldl_set_add)

lemma distinct_from_set: "distinct (from_set xs)"
  by (simp add: from_set_def distinct_foldl_set_add)

lemma next_flangeSize:
  assumes "r \<in> set (getFlangeSpecs tbl (Some f))"
  shows "r \<in> set (getFlangeSpecs tbl (Some (f\<lparr>f_flangeSize := Some (flangeSizeRaw r)\<rparr>)))"
  using assms
  by (auto simp: mem_getFlangeSpecs narrowing_iff truthy_str_def
      partTypeConditions_cong[of "f\<lparr>f_flangeSize := Some (flangeSizeRaw r)\<rparr>" f])

lemma next_boltCount:
  assumes "r \<in> set (getFlangeSpecs tbl (Some f))"
  shows "r \<in> set (getFlangeSpecs tbl (Some (f\<lparr>f_boltCount := Some (boltCount r)\<rparr>)))"
  using assms
  by (auto simp: mem_getFlangeSpecs narrowing_iff truthy_str_def
      partTypeConditions_cong[of "f\<lparr>f_boltCount := Some (boltCount r)\<rparr>" f])

lemma next_boltSize:
  assumes "r \<in> set (getFlangeSpecs tbl (Some f))"
  shows "r \<in> set (getFlangeSpecs tbl (Some (f\<lparr>f_boltSize := Some (sizeOfBolts r)\<rparr>)))"
  using assms
  by (auto simp: mem_getFlangeSpecs narrowing_iff truthy_str_def
      partTypeConditions_cong[of "f\<lparr>f_boltSize := Some (sizeOfBolts r)\<rparr>" f])

text \<open>
  Claim C2. The option lists of the three dropdowns are the projections of the size label,
  the bolt count and the bolt size from the candidates of the filters chosen so far, without
  duplicates; and every value offered, added as the next filter, leaves at least one
  candidate.
\<close>

theorem option_set_soundness:
  "distinct (uniqueFlangeSizes (getFlangeSpecs tbl (Some f)))
   \<and> set (uniqueFlangeSizes (getFlangeSpecs tbl (Some f))) = flangeSizeRaw ` set (getFlangeSpecs tbl (Some f))
   \<and> distinct (uniqueBoltCounts (getFlangeSpecs tbl (Some f)))
   \<and> set (uniqueBoltCounts (getFlangeSpecs tbl (Some f))) = boltCount ` set (getFlangeSpecs tbl (Some f))
   \<and> distinct (uniqueBoltSizes (getFlangeSpecs tbl (Some f)))
   \<and> set (uniqueBoltSizes (getFlangeSpecs tbl (Some f))) = sizeOfBolts ` set (getFlangeSpecs tbl (Some f))
   \<and> (\<forall>v\<in>set (uniqueFlangeSizes (getFlangeSpecs tbl (Some f))).
         getFlangeSpecs tbl (Some (f\<lparr>f_flangeSize := Some v\<rparr>)) \<noteq> [])
   \<and> (\<forall>n\<in>set (uniqueBoltCounts (getFlangeSpecs tbl (Some f))).
         getFlangeSpecs tbl (Some (f\<lparr>f_boltCount := Some n\<rparr>)) \<noteq> [])
   \<and> (\<forall>v\<in>set (uniqueBoltSizes (getFlangeSpecs tbl (Some f))).
         getFlangeSpecs tbl (Some (f\<lparr>f_boltSize := Some v\<rparr>)) \<noteq> [])"
proof -
  have a: "\<forall>v\<in>set (uniqueFlangeSizes (getFlangeSpecs tbl (Some f))).
         getFlangeSpecs tbl (Some (f\<lparr>f_flangeSize := Some v\<rparr>)) \<noteq> []"
  proof
    fix v assume "v \<in> set (uniqueFlangeSizes (getFlangeSpecs tbl (Some f)))"
    then obtain r where "r \<in> set (getFlangeSpecs tbl (Some f))" "v = flangeSizeRaw r"
      by (auto simp: uniqueFlangeSizes_def set_from_set)
    then have "r \<in> set (getFlangeSpecs tbl (Some (f\<lparr>f_flangeSize := Some v\<rparr>)))"
      using next_flangeSize by simp
    then show "getFlangeSpecs tbl (Some (f\<lparr>f_flangeSize := Some v\<rparr>)) \<noteq> []"
      by (metis empty_iff empty_set)
  qed
  have b: "\<forall>n\<in>set (uniqueBoltCounts (getFlangeSpecs tbl (Some f))).
         getFlangeSpecs tbl (Some (f\<lparr>f_boltCount := Some n\<rparr>)) \<noteq> []"
  proof
    fix n assume "n \<in> set (uniqueBoltCounts (getFlangeSpecs tbl (Some f)))"
    then obtain r where "r \<in> set (getFlangeSpecs tbl (Some f))" "n = boltCount r"
      by (auto simp: uniqueBoltCounts_def set_from_set)
    then have "r \<in> set (getFlangeSpecs tbl (Some (f\<lparr>f_boltCount := Some n\<rparr>)))"
      using next_boltCount by simp
    then show "getFlangeSpecs tbl (Some (f\<lparr>f_boltCount := Some n\<rparr>)) \<noteq> []"
      by (metis empty_iff empty_set)
  qed
  have c: "\<forall>v\<in>set (uniqueBoltSizes (getFlangeSpecs tbl (Some f))).
         getFlangeSpecs tbl (Some (f\<lparr>f_boltSize := Some v\<rparr>)) \<noteq> []"
  proof
    fix v assume "v \<in> set (uniqueBoltSizes (getFlangeSpecs tbl (Some f)))"
    then obtain r where "r \<in> set (getFlangeSpecs tbl (Some f))" "v = sizeOfBolts r"
      by (auto simp: uniqueBoltSizes_def set_from_set)
    then have "r \<in> set (getFlangeSpecs tbl (Some (f\<lparr>f_boltSize := Some v\<rparr>)))"
      using next_boltSize by simp
    then show "getFlangeSpecs tbl (Some (f\<lparr>f_boltSize := Some v\<rparr>)) \<noteq> []"
      by (metis empty_iff empty_set)
  qed
  show ?thesis
    using a b c
    by (simp add: uniqueFlangeSizes_def uniqueBoltCounts_def uniqueBoltSizes_def
        set_from_set distinct_from_set)
qed

theorem option_set_soundness_witness:
  "8 \<in> set (uniqueBoltCounts (getFlangeSpecs demo_catalog
            (Some (no_filters\<lparr>f_partType := Some ANNULAR, f_pressure := Some 5000\<rparr>))))
   \<and> getFlangeSpecs demo_catalog
        (Some (no_filters\<lparr>f_partType := Some ANNULAR, f_pressure := Some 5000,
                          f_boltCount := Some 8\<rparr>)) \<noteq> []"
proof -
  have h: "8 \<in> set (uniqueBoltCounts (getFlangeSpecs demo_catalog
            (Some (no_filters\<lparr>f_partType := Some ANNULAR, f_pressure := Some 5000\<rparr>))))"
    by (simp add: engine_defs uniqueBoltCounts_def from_set_def set_add_def)
  show ?thesis
    using h option_set_soundness [of demo_catalog
        "no_filters\<lparr>f_partType := Some ANNULAR, f_pressure := Some 5000\<rparr>"]
    by simp
qed

text \<open>
  Claim C10. For the part types ANACONDA_LINES, ROTATING_HEAD and ADAPTER_SPOOL_SIDE, two
  filter objects that agree on the size label, the bolt count and the bolt size give the
  same candidates, whatever their pressure fields are.
\<close>

theorem geometry_ignores_pressure:
  assumes "f_partType f1 = Some pt" and "f_partType f2 = Some pt"
    and "pt = ANACONDA_LINES \<or> pt = ROTATING_HEAD \<or> pt = ADAPTER_SPOOL_SIDE"
    and "f_flangeSize f1 = f_flangeSize f2"
    and "f_boltCount f1 = f_boltCount f2"
    and "f_boltSize f1 = f_boltSize f2"
  shows "getFlangeSpecs tbl (Some f1) = getFlangeSpecs tbl (Some f2)"
proof -
  have "partTypeConditions f1 = Some []" "partTypeConditions f2 = Some []"
    using assms(1,2,3) by (auto simp: partTypeConditions_def truthy_str_def part_type_defs js_def)
  moreover have "narrowingConditions f1 = narrowingConditions f2"
    using assms(4,5,6) by (simp add: narrowingConditions_def)
  ultimately show ?thesis by (simp add: getFlangeSpecs_eq)
qed

theorem geometry_ignores_pressure_witness:
  "getFlangeSpecs demo_catalog
     (Some (no_filters\<lparr>f_partType := Some ROTATING_HEAD, f_pressure := Some 99, f_boltCount := Some 12\<rparr>))
   = getFlangeSpecs demo_catalog
     (Some (no_filters\<lparr>f_partType := Some ROTATING_HEAD, f_boltCount := Some 12\<rparr>))"
  using geometry_ignores_pressure [of
      "no_filters\<lparr>f_partType := Some ROTATING_HEAD, f_pressure := Some 99, f_boltCount := Some 12\<rparr>"
      ROTATING_HEAD
      "no_filters\<lparr>f_partType := Some ROTATING_HEAD, f_boltCount := Some 12\<rparr>"
      demo_catalog]
  by (simp add: no_filters_def)

lemma partTypeConditions_falsy:
  "\<not> truthy_str (f_partType f) \<Longrightarrow> partTypeConditions f = Some []"
  by (simp add: partTypeConditions_def)

lemma partTypeConditions_unknown:
  "truthy_str (f_partType f) \<Longrightarrow> the (f_partType f) \<notin> set PartType_values \<Longrightarrow>
   partTypeConditions f = None"
  by (simp add: partTypeConditions_def PartType_values_def)

lemma partTypeConditions_known:
  assumes "truthy_str (f_partType f)" and "the (f_partType f) \<in> set PartType_values"
  shows "partTypeConditions f =
     Some (case pressureColumn (the (f_partType f)) of
             None \<Rightarrow> []
           | Some col \<Rightarrow> [pressureCondition col (f_pressure f)])"
proof -
  consider "the (f_partType f) = ANNULAR" | "the (f_partType f) = SINGLE_RAM"
    | "the (f_partType f) = DOUBLE_RAMS" | "the (f_partType f) = MUD_CROSS"
    | "the (f_partType f) = ANACONDA_LINES" | "the (f_partType f) = ROTATING_HEAD"
    | "the (f_partType f) = ADAPTER_SPOOL_SIDE"
    using assms(2) by (auto simp: PartType_values_def)
  then show ?thesis
    using assms(1)
    by cases (simp_all add: partTypeConditions_def pressureColumn_def part_type_defs js_def)
qed

lemma getFlangeSpecs_rows:
  "getFlangeSpecs tbl (Some f) =
     (if truthy_str (f_partType f) \<and> the (f_partType f) \<notin> set PartType_values then []
      else sort_key flangeSizeRaw (filter (\<lambda>r.
             (truthy_str (f_partType f) \<longrightarrow>
                (case pressureColumn (the (f_partType f)) of
                   None \<Rightarrow> True
                 | Some col \<Rightarrow>
                     (case f_pressure f of Some v \<Rightarrow> col r = Some v | None \<Rightarrow> col r \<noteq> None)))
           \<and> (truthy_str (f_flangeSize f) \<longrightarrow> flangeSizeRaw r = the (f_flangeSize f))
           \<and> (f_boltCount f \<noteq> None \<longrightarrow> boltCount r = the (f_boltCount f))
           \<and> (truthy_str (f_boltSize f) \<longrightarrow> sizeOfBolts r = the (f_boltSize f))) tbl))"
proof (cases "truthy_str (f_partType f)")
  case False
  then show ?thesis
    by (simp add: getFlangeSpecs_eq partTypeConditions_falsy narrowing_iff)
next
  case True
  show ?thesis
  proof (cases "the (f_partType f) \<in> set PartType_values")
    case False
    with True show ?thesis
      by (simp add: getFlangeSpecs_eq partTypeConditions_unknown)
  next
    case known: True
    show ?thesis
      using True known
      by (cases "pressureColumn (the (f_partType f))")
         (simp_all add: getFlangeSpecs_eq partTypeConditions_known narrowing_iff
            pressureCondition_def)
  qed
qed

lemma count_list_insort_key: "count_list (insort_key f x xs) r = count_list (x # xs) r"
  by (induction xs) auto

lemma count_list_sort_key: "count_list (sort_key f xs) r = count_list xs r"
  by (induction xs) (simp_all add: count_list_insort_key)

lemma partTypeConditions_None_iff:
  "partTypeConditions f = None \<longleftrightarrow>
     truthy_str (f_partType f) \<and> the (f_partType f) \<notin> set PartType_values"
proof (cases "truthy_str (f_partType f)")
  case False
  then show ?thesis by (simp add: partTypeConditions_falsy)
next
  case True
  show ?thesis
  proof (cases "the (f_partType f) \<in> set PartType_values")
    case False
    with True show ?thesis by (simp add: partTypeConditions_unknown)
  next
    case known: True
    with True show ?thesis by (simp add: partTypeConditions_known)
  qed
qed

lemma pressureColumn_Some_iff:
  "pressureColumn pt \<noteq> None \<longleftrightarrow> pt = ANNULAR \<or> pt = SINGLE_RAM \<or> pt = DOUBLE_RAMS \<or> pt = MUD_CROSS"
  by (simp add: pressureColumn_def)

lemma boundNumbers_fit:
  "list_all int32 (boundNumbers f) \<longleftrightarrow>
     (truthy_str (f_partType f) \<and> pressureColumn (the (f_partType f)) \<noteq> None \<longrightarrow>
        (case f_pressure f of None \<Rightarrow> True | Some v \<Rightarrow> int32 v))
     \<and> (case f_boltCount f of None \<Rightarrow> True | Some n \<Rightarrow> int32 n)"
proof -
  have "pressureColumn (the (f_partType f)) \<noteq> None \<longleftrightarrow>
      the (f_partType f) = ANNULAR \<or> the (f_partType f) = SINGLE_RAM
      \<or> the (f_partType f) = DOUBLE_RAMS \<or> the (f_partType f) = MUD_CROSS"
    by (rule pressureColumn_Some_iff)
  then show ?thesis
    by (cases "f_pressure f"; cases "f_boltCount f") (auto simp: boundNumbers_def)
qed

text \<open>
  Claim C4, as the code has it. A non-empty part type that is not one of the seven gives
  the empty list at once. Otherwise the pressure, under a part type with a pressure column,
  and the bolt count are handed to the statement when they are present, and a number among
  them that does not fit a 32-bit integer makes the database refuse the statement: the call
  raises and answers no list. When they fit, the answer holds exactly the records of the
  table that pass every stage, each as often as the table holds it (the order of the answer
  is left to the database). A part type that is absent or the empty string puts no
  constraint on the records, as do the three part types without a pressure column; a part
  type with a pressure column keeps the records whose column equals the pressure given, or
  is not NULL when none is given. The size label and the bolt size are compared for
  equality when they are present and not empty, the bolt count whenever it is present.
\<close>

theorem getFlangeSpecsCall_stages:
  "(truthy_str (f_partType f) \<and> the (f_partType f) \<notin> set PartType_values \<longrightarrow>
      getFlangeSpecsCall tbl (Some f) = Inr [])
   \<and> (\<not> (truthy_str (f_partType f) \<and> the (f_partType f) \<notin> set PartType_values)
      \<and> \<not> ((truthy_str (f_partType f) \<and> pressureColumn (the (f_partType f)) \<noteq> None \<longrightarrow>
                (case f_pressure f of None \<Rightarrow> True | Some v \<Rightarrow> int32 v))
             \<and> (case f_boltCount f of None \<Rightarrow> True | Some n \<Rightarrow> int32 n)) \<longrightarrow>
      getFlangeSpecsCall tbl (Some f) = Inl NumericValueOutOfRange)
   \<and> (\<not> (truthy_str (f_partType f) \<and> the (f_partType f) \<notin> set PartType_values)
      \<and> (truthy_str (f_partType f) \<and> pressureColumn (the (f_partType f)) \<noteq> None \<longrightarrow>
                (case f_pressure f of None \<Rightarrow> True | Some v \<Rightarrow> int32 v))
      \<and> (case f_boltCount f of None \<Rightarrow> True | Some n \<Rightarrow> int32 n) \<longrightarrow>
      (\<exists>rows. getFlangeSpecsCall tbl (Some f) = Inr rows
         \<and> (\<forall>r. count_list rows r = count_list (filter (\<lambda>r.
             (truthy_str (f_partType f) \<longrightarrow>
                (case pressureColumn (the (f_partType f)) of
                   None \<Rightarrow> True
                 | Some col \<Rightarrow>
                     (case f_pressure f of Some v \<Rightarrow> col r = Some v | None \<Rightarrow> col r \<noteq> None)))
           \<and> (truthy_str (f_flangeSize f) \<longrightarrow> flangeSizeRaw r = the (f_flangeSize f))
           \<and> (f_boltCount f \<noteq> None \<longrightarrow> boltCount r = the (f_boltCount f))
           \<and> (truthy_str (f_boltSize f) \<longrightarrow> sizeOfBolts r = the (f_boltSize f))) tbl) r)))
   \<and> pressureColumn ANNULAR = Some annularPressure
   \<and> pressureColumn SINGLE_RAM = Some singleRamPressure
   \<and> pressureColumn DOUBLE_RAMS = Some doubleRamsPressure
   \<and> pressureColumn MUD_CROSS = Some mudCrossPressure
   \<and> pressureColumn ANACONDA_LINES = None
   \<and> pressureColumn ROTATING_HEAD = None
   \<and> pressureColumn ADAPTER_SPOOL_SIDE = None
   \<and> (\<forall>v. int32 v \<longleftrightarrow> - (2 ^ 31) \<le> v \<and> v < 2 ^ 31)"
proof -
  have cols: "pressureColumn ANACONDA_LINES = None" "pressureColumn ROTATING_HEAD = None"
    "pressureColumn ADAPTER_SPOOL_SIDE = None"
    by (simp_all add: pressureColumn_def part_type_defs js_def)
  have rng: "\<forall>v. int32 v \<longleftrightarrow> - (2 ^ 31) \<le> v \<and> v < 2 ^ 31"
    by (auto simp: int32_def)
  have a: "truthy_str (f_partType f) \<and> the (f_partType f) \<notin> set PartType_values \<longrightarrow>
      getFlangeSpecsCall tbl (Some f) = Inr []"
    by (simp add: getFlangeSpecsCall_def partTypeConditions_None_iff)
  have b: "\<not> (truthy_str (f_partType f) \<and> the (f_partType f) \<notin> set PartType_values)
      \<and> \<not> list_all int32 (boundNumbers f) \<longrightarrow>
      getFlangeSpecsCall tbl (Some f) = Inl NumericValueOutOfRange"
    by (simp add: getFlangeSpecsCall_def partTypeConditions_None_iff)
  have c: "\<not> (truthy_str (f_partType f) \<and> the (f_partType f) \<notin> set PartType_values)
      \<and> list_all int32 (boundNumbers f) \<longrightarrow>
      getFlangeSpecsCall tbl (Some f) = Inr (getFlangeSpecs tbl (Some f))"
    by (simp add: getFlangeSpecsCall_def partTypeConditions_None_iff)
  show ?thesis
    using a b c cols rng pressureColumn_simps(1-4)
    unfolding boundNumbers_fit
    by (auto simp: getFlangeSpecs_rows count_list_sort_key)
qed

theorem getFlangeSpecsCall_stages_witness:
  "getFlangeSpecsCall demo_catalog
     (Some (no_filters\<lparr>f_partType := Some ANNULAR, f_pressure := Some 2147483648\<rparr>))
     = Inl NumericValueOutOfRange
   \<and> (\<exists>rows. getFlangeSpecsCall demo_catalog
         (Some (no_filters\<lparr>f_partType := Some ANNULAR, f_pressure := Some 5000, f_boltCount := Some 8\<rparr>))
         = Inr rows
       \<and> count_list rows specA = 1 \<and> count_list rows specB = 0)"
proof -
  let ?big = "no_filters\<lparr>f_partType := Some ANNULAR, f_pressure := Some 2147483648\<rparr>"
  let ?ok = "no_filters\<lparr>f_partType := Some ANNULAR, f_pressure := Some 5000, f_boltCount := Some 8\<rparr>"
  have known: "ANNULAR \<in> set PartType_values" "pressureColumn ANNULAR = Some annularPressure"
    by (simp_all add: PartType_values_def pressureColumn_def)
  have h1: "\<not> (truthy_str (f_partType ?big) \<and> the (f_partType ?big) \<notin> set PartType_values)
      \<and> \<not> ((truthy_str (f_partType ?big) \<and> pressureColumn (the (f_partType ?big)) \<noteq> None \<longrightarrow>
                (case f_pressure ?big of None \<Rightarrow> True | Some v \<Rightarrow> int32 v))
             \<and> (case f_boltCount ?big of None \<Rightarrow> True | Some n \<Rightarrow> int32 n))"
    using known by (simp add: no_filters_def truthy_str_def int32_def part_type_defs js_def)
  have h2: "\<not> (truthy_str (f_partType ?ok) \<and> the (f_partType ?ok) \<notin> set PartType_values)
      \<and> (truthy_str (f_partType ?ok) \<and> pressureColumn (the (f_partType ?ok)) \<noteq> None \<longrightarrow>
                (case f_pressure ?ok of None \<Rightarrow> True | Some v \<Rightarrow> int32 v))
      \<and> (case f_boltCount ?ok of None \<Rightarrow> True | Some n \<Rightarrow> int32 n)"
    using known by (simp add: no_filters_def int32_def)
  have c1: "getFlangeSpecsCall demo_catalog (Some ?big) = Inl NumericValueOutOfRange"
    using h1 getFlangeSpecsCall_stages [of ?big demo_catalog, THEN conjunct2, THEN conjunct1]
    by (rule rev_mp)
  obtain rows where r: "getFlangeSpecsCall demo_catalog (Some ?ok) = Inr rows"
    and c: "\<forall>r. count_list rows r = count_list (filter (\<lambda>r.
             (truthy_str (f_partType ?ok) \<longrightarrow>
                (case pressureColumn (the (f_partType ?ok)) of
                   None \<Rightarrow> True
                 | Some col \<Rightarrow>
                     (case f_pressure ?ok of Some v \<Rightarrow> col r = Some v | None \<Rightarrow> col r \<noteq> None)))
           \<and> (truthy_str (f_flangeSize ?ok) \<longrightarrow> flangeSizeRaw r = the (f_flangeSize ?ok))
           \<and> (f_boltCount ?ok \<noteq> None \<longrightarrow> boltCount r = the (f_boltCount ?ok))
           \<and> (truthy_str (f_boltSize ?ok) \<longrightarrow> sizeOfBolts r = the (f_boltSize ?ok))) demo_catalog) r"
    using getFlangeSpecsCall_stages [of ?ok demo_catalog, THEN conjunct2, THEN conjunct2,
        THEN conjunct1, THEN mp, OF h2]
    by (elim exE conjE) (rule that)
  have k: "count_list rows specA = 1" "count_list rows specB = 0"
    using known by (simp_all add: c no_filters_def truthy_str_def demo_catalog_def specA_def specB_def
        part_type_defs js_def)
  show ?thesis
    by (intro conjI exI[of _ rows]) (rule c1 r k)+
qed

text \<open>
  Claim C4 as stated fails: the empty string is not one of the part types, yet a filter
  object whose part type is the empty string gets the whole catalog, not the empty list.
\<close>

theorem unrecognized_category_counterexample:
  "js '''' \<notin> set PartType_values
   \<and> (\<exists>rows. getFlangeSpecsCall demo_catalog (Some (no_filters\<lparr>f_partType := Some (js '''')\<rparr>))
                = Inr rows
        \<and> set rows = {specA, specB})"
  by (simp add: getFlangeSpecsCall_def boundNumbers_def engine_defs PartType_values_def)

section \<open>Properties of the storage layer\<close>

lemmas db_defs = demo_db_def demo_stack_def part1_def part2_def demo_catalog_def specA_def specB_def
  spool_db_def side1_def side2_def part_type_defs js_def


lemma getStack_stack_order_update [simp]:
  "getStack (db\<lparr>stack_order := os\<rparr>) i = getStack db i"
  by (simp add: getStack_def)

lemma insertStackOrders_ok:
  assumes "\<forall>v\<in>set vs. getStack db (order_stackId v) \<noteq> None
             \<and> partSelectionId v \<in> part_id ` set (part_selection db)"
  shows "insertStackOrders db vs = (Inr (), db\<lparr>stack_order := stack_order db @ vs\<rparr>)"
  using assms by (simp add: insertStackOrders_def list_all_iff)

lemma updateStackOrder_ok:
  assumes "getStack db sid \<noteq> None" and "set ids \<subseteq> set (stackMembers db sid)"
  shows "updateStackOrder db sid ids =
     (Inr (), db\<lparr>stack_order := filter (\<lambda>ord. order_stackId ord \<noteq> sid) (stack_order db)
         @ map (\<lambda>(partId, index). \<lparr>order_stackId = sid, partSelectionId = partId, position = int index\<rparr>)
             (zip ids [0..<length ids])\<rparr>)"
proof (cases "ids = []")
  case True
  then show ?thesis by (simp add: updateStackOrder_def)
next
  case False
  let ?db1 = "db\<lparr>stack_order := filter (\<lambda>ord. order_stackId ord \<noteq> sid) (stack_order db)\<rparr>"
  let ?vs = "map (\<lambda>(partId, index). \<lparr>order_stackId = sid, partSelectionId = partId, position = int index\<rparr>)
             (zip ids [0..<length ids])"
  have "\<forall>v\<in>set ?vs. getStack ?db1 (order_stackId v) \<noteq> None
             \<and> partSelectionId v \<in> part_id ` set (part_selection ?db1)"
  proof
    fix v assume "v \<in> set ?vs"
    then obtain partId index where pi: "(partId, index) \<in> set (zip ids [0..<length ids])"
      and v: "v = \<lparr>order_stackId = sid, partSelectionId = partId, position = int index\<rparr>"
      by auto
    from pi have "partId \<in> set ids" by (rule set_zip_leftD)
    with assms(2) have "partId \<in> set (stackMembers db sid)" by blast
    then have "partId \<in> part_id ` set (part_selection db)"
      by (auto simp: stackMembers_def)
    with v assms(1) show "getStack ?db1 (order_stackId v) \<noteq> None
             \<and> partSelectionId v \<in> part_id ` set (part_selection ?db1)"
      by simp
  qed
  then have "insertStackOrders ?db1 ?vs = (Inr (), ?db1\<lparr>stack_order := stack_order ?db1 @ ?vs\<rparr>)"
    by (rule insertStackOrders_ok)
  with False show ?thesis
    by (simp add: updateStackOrder_def Let_def)
qed

lemma positions_of_new_rows:
  "map (\<lambda>ord. (partSelectionId ord, position ord))
     (map (\<lambda>(partId, index). \<lparr>order_stackId = sid, partSelectionId = partId, position = int index\<rparr>)
        (zip ids ns)) = zip ids (map int ns)"
  by (induction ids ns rule: list_induct2') simp_all

lemma filter_new_rows_same:
  "filter (\<lambda>ord. order_stackId ord = sid)
     (map (\<lambda>(partId, index). \<lparr>order_stackId = sid, partSelectionId = partId, position = int index\<rparr>) zs)
   = map (\<lambda>(partId, index). \<lparr>order_stackId = sid, partSelectionId = partId, position = int index\<rparr>) zs"
  by (induction zs) auto

lemma filter_new_rows_other:
  "sid' \<noteq> sid \<Longrightarrow> filter (\<lambda>ord. order_stackId ord = sid')
     (map (\<lambda>(partId, index). \<lparr>order_stackId = sid, partSelectionId = partId, position = int index\<rparr>) zs)
   = []"
  by (induction zs) auto

lemma filter_kept_same:
  "filter (\<lambda>ord. order_stackId ord = sid) (filter (\<lambda>ord. order_stackId ord \<noteq> sid) os) = []"
  by (induction os) auto

lemma filter_kept_other:
  "sid' \<noteq> sid \<Longrightarrow>
   filter (\<lambda>ord. order_stackId ord = sid') (filter (\<lambda>ord. order_stackId ord \<noteq> sid) os)
   = filter (\<lambda>ord. order_stackId ord = sid') os"
  by (induction os) auto

text \<open>
  Claim C1, as the code has it. The route checks only that \<^verbatim>\<open>orderedPartIds\<close> is an array,
  and \<^verbatim>\<open>updateStackOrder\<close> checks nothing. For a stack that exists and a sequence without
  repetition of ids of its members (every permutation of the members is one, and so is a
  sequence that leaves members out), the call succeeds, the position assignment of the stack
  becomes each id paired with its index in the sequence, counted from 0, and nothing else
  in the database changes.
\<close>

theorem reorder_replaces_positions:
  assumes "getStack db sid \<noteq> None" and "distinct ids" and "set ids \<subseteq> set (stackMembers db sid)"
  shows "fst (patch_stack_order db sid (Some ids)) = Inr ()
    \<and> stackPositions (snd (patch_stack_order db sid (Some ids))) sid = zip ids (map int [0..<length ids])
    \<and> (\<forall>sid'. sid' \<noteq> sid \<longrightarrow>
          stackPositions (snd (patch_stack_order db sid (Some ids))) sid' = stackPositions db sid')
    \<and> part_selection (snd (patch_stack_order db sid (Some ids))) = part_selection db
    \<and> stack_header (snd (patch_stack_order db sid (Some ids))) = stack_header db
    \<and> flange_spec (snd (patch_stack_order db sid (Some ids))) = flange_spec db"
proof -
  let ?kept = "filter (\<lambda>ord. order_stackId ord \<noteq> sid) (stack_order db)"
  let ?new = "map (\<lambda>(partId, index). \<lparr>order_stackId = sid, partSelectionId = partId, position = int index\<rparr>)
             (zip ids [0..<length ids])"
  have res: "patch_stack_order db sid (Some ids) = (Inr (), db\<lparr>stack_order := ?kept @ ?new\<rparr>)"
    using assms(1,3) by (simp add: patch_stack_order_def updateStackOrder_ok)
  have kept_same: "filter (\<lambda>ord. order_stackId ord = sid) ?kept = []"
    by (rule filter_kept_same)
  have kept_other: "filter (\<lambda>ord. order_stackId ord = sid') ?kept
      = filter (\<lambda>ord. order_stackId ord = sid') (stack_order db)" if "sid' \<noteq> sid" for sid'
    using that by (rule filter_kept_other)
  have sel: "stack_order (db\<lparr>stack_order := os\<rparr>) = os" for os
    by simp
  have p1: "stackPositions (db\<lparr>stack_order := ?kept @ ?new\<rparr>) sid = zip ids (map int [0..<length ids])"
    unfolding stackPositions_def
    by (simp only: sel filter_append kept_same filter_new_rows_same append_Nil
        positions_of_new_rows)
  have p2: "stackPositions (db\<lparr>stack_order := ?kept @ ?new\<rparr>) sid' = stackPositions db sid'"
    if "sid' \<noteq> sid" for sid'
    unfolding stackPositions_def
    by (simp only: sel filter_append kept_other[OF that] filter_new_rows_other[OF that]
        append_Nil2)
  show ?thesis
    using p1 p2 by (simp add: res)
qed




theorem reorder_replaces_positions_witness:
  "getStack demo_db (js ''s1'') \<noteq> None
   \<and> distinct [js ''p2'', js ''p1'']
   \<and> set [js ''p2'', js ''p1''] \<subseteq> set (stackMembers demo_db (js ''s1''))
   \<and> stackPositions (snd (patch_stack_order demo_db (js ''s1'') (Some [js ''p2'', js ''p1''])))
         (js ''s1'') = [(js ''p2'', 0), (js ''p1'', 1)]"
proof -
  have h1: "getStack demo_db (js ''s1'') \<noteq> None"
    by (simp add: getStack_def db_defs)
  have h2: "distinct [js ''p2'', js ''p1'']"
    by (simp add: js_def)
  have h3: "set [js ''p2'', js ''p1''] \<subseteq> set (stackMembers demo_db (js ''s1''))"
    by (simp add: stackMembers_def db_defs)
  show ?thesis
    using h1 h2 h3 reorder_replaces_positions [OF h1 h2 h3] by (simp add: upt_rec)
qed

text \<open>
  Claim C1 as stated fails: on the stack with the members \<open>p1\<close> at 0 and \<open>p2\<close> at 1, the
  sequence that holds \<open>p1\<close> alone is not a permutation of the members, yet the call succeeds
  and the stored position assignment has changed: \<open>p2\<close> has lost its position.
\<close>

theorem reorder_omission_counterexample:
  "set [js ''p1''] \<noteq> set (stackMembers demo_db (js ''s1''))
   \<and> fst (patch_stack_order demo_db (js ''s1'') (Some [js ''p1''])) = Inr ()
   \<and> stackPositions demo_db (js ''s1'') = [(js ''p1'', 0), (js ''p2'', 1)]
   \<and> stackPositions (snd (patch_stack_order demo_db (js ''s1'') (Some [js ''p1'']))) (js ''s1'')
       = [(js ''p1'', 0)]"
  by (simp add: patch_stack_order_def updateStackOrder_def insertStackOrders_def getStack_def
      stackPositions_def stackMembers_def db_defs)


lemma truncate_extend [simp]:
  "PartSelection.truncate (PartSelection.extend p (PartWithFlangeSpec.fields s)) = p"
  by (cases p) (simp add: PartSelection.truncate_def PartSelection.extend_def PartWithFlangeSpec.fields_def)

lemma extend_sel [simp]:
  "part_id (PartSelection.extend p (PartWithFlangeSpec.fields s)) = part_id p"
  "stackId (PartSelection.extend p (PartWithFlangeSpec.fields s)) = stackId p"
  "flangeSpecId (PartSelection.extend p (PartWithFlangeSpec.fields s)) = flangeSpecId p"
  "flangeSpec (PartSelection.extend p (PartWithFlangeSpec.fields s)) = s"
  by (cases p, simp add: PartSelection.extend_def PartWithFlangeSpec.fields_def)+
















lemma groupMembers_remove:
  "groupMembers (removePartFromStack db pid) g = filter (\<lambda>q. part_id q \<noteq> pid) (groupMembers db g)"
  by (simp add: groupMembers_def removePartFromStack_def conj_commute)

lemma length_filter_remove_one:
  assumes "distinct (map part_id ps)" and "p \<in> set ps"
  shows "length (filter (\<lambda>q. part_id q \<noteq> part_id p) ps) = length ps - 1"
  using assms
proof (induction ps)
  case Nil
  then show ?case by simp
next
  case (Cons a ps)
  show ?case
  proof (cases "a = p")
    case True
    with Cons.prems have "part_id p \<notin> part_id ` set ps" by simp
    then have "\<forall>q\<in>set ps. part_id q \<noteq> part_id p" by (metis image_eqI)
    then have "filter (\<lambda>q. part_id q \<noteq> part_id p) ps = ps" by (simp add: filter_id_conv)
    with True show ?thesis by simp
  next
    case False
    with Cons.prems have p: "p \<in> set ps" and d: "distinct (map part_id ps)"
      and ne: "part_id a \<noteq> part_id p" by auto
    from p have "length ps > 0" by (cases ps) auto
    with Cons.IH[OF d p] ne show ?thesis by simp
  qed
qed

lemma distinct_groupMembers:
  "distinct (map part_id (part_selection db)) \<Longrightarrow> distinct (map part_id (groupMembers db g))"
  by (simp add: groupMembers_def distinct_map_filter)

lemma groupMembers_add:
  assumes "addPartToStack newId now db part = Inr (created, db')"
  shows "groupMembers db' g =
           groupMembers db g @ (if ins_spoolGroupId part = Some g then [created] else [])"
    and "part_id created = newId" and "spoolGroupId created = ins_spoolGroupId part"
    and "flange_spec db' = flange_spec db" and "stack_header db' = stack_header db"
    and "map part_id (part_selection db') = map part_id (part_selection db) @ [newId]"
  using assms
  by (auto simp: addPartToStack_def groupMembers_def Let_def split: if_splits)

lemma post_stack_items_ok:
  assumes "getStack db sid \<noteq> None" and "getFlangeSpecById db (ins_flangeSpecId body) \<noteq> None"
    and "newId \<notin> set (map part_id (part_selection db))"
  shows "\<exists>created db'. post_stack_items newId now db sid body = Inr (created, db')
           \<and> addPartToStack newId now db (body\<lparr>ins_stackId := sid\<rparr>) = Inr (created, db')"
  using assms by (simp add: post_stack_items_def addPartToStack_def Let_def)

lemma post_stack_items_missing_spec:
  "getFlangeSpecById db (ins_flangeSpecId body) = None \<Longrightarrow>
   post_stack_items newId now db sid body = Inl BadRequest"
  by (simp add: post_stack_items_def)

lemma getStack_after_add:
  "stack_header db' = stack_header db \<Longrightarrow> getStack db' i = getStack db i"
  by (simp add: getStack_def)

lemma getFlangeSpecById_after_add:
  "flange_spec db' = flange_spec db \<Longrightarrow> getFlangeSpecById db' i = getFlangeSpecById db i"
  by (simp add: getFlangeSpecById_def)

lemma post_side_ok:
  assumes st: "getStack db sid \<noteq> None" and sp: "getFlangeSpecById db f \<noteq> None"
    and fr: "newId \<notin> set (map part_id (part_selection db))"
  shows "\<exists>a db1. post_stack_items newId now db sid (sideBody sid g f) = Inr (a, db1)
      \<and> groupMembers db1 g = groupMembers db g @ [a]
      \<and> flange_spec db1 = flange_spec db \<and> stack_header db1 = stack_header db
      \<and> map part_id (part_selection db1) = map part_id (part_selection db) @ [newId]"
proof -
  have "getFlangeSpecById db (ins_flangeSpecId (sideBody sid g f)) \<noteq> None"
    using sp by (simp add: sideBody_def)
  then obtain a db1 where post: "post_stack_items newId now db sid (sideBody sid g f) = Inr (a, db1)"
    and add: "addPartToStack newId now db ((sideBody sid g f)\<lparr>ins_stackId := sid\<rparr>) = Inr (a, db1)"
    using post_stack_items_ok[OF st _ fr, where body = "sideBody sid g f" and now = now] by blast
  have "ins_spoolGroupId ((sideBody sid g f)\<lparr>ins_stackId := sid\<rparr>) = Some g"
    by (simp add: sideBody_def)
  then have "groupMembers db1 g = groupMembers db g @ [a]"
    using groupMembers_add(1)[OF add, of g] by simp
  then show ?thesis
    using post groupMembers_add(4,5,6)[OF add] by blast
qed

lemma addPartMutation_spool:
  "addPartMutation gen db (Some sid) (spoolData g f1 f2) =
     (case post_stack_items (fst (gen 0)) (snd (gen 0)) db sid (sideBody sid g f1) of
        Inl e \<Rightarrow> (Inl e, db)
      | Inr (a, db1) \<Rightarrow>
          (case post_stack_items (fst (gen 1)) (snd (gen 1)) db1 sid (sideBody sid g f2) of
             Inl e \<Rightarrow> (Inl e, db1)
           | Inr (b, db2) \<Rightarrow> (Inr [a, b], db2)))"
  by (simp add: addPartMutation_def spoolData_def sideBody_def split: sum.split prod.split)

lemma spool_both_sides:
  assumes "getStack db sid \<noteq> None" and "getFlangeSpecById db f1 \<noteq> None"
    and "getFlangeSpecById db f2 \<noteq> None"
    and "fst (gen 0) \<notin> set (map part_id (part_selection db))"
    and "fst (gen 1) \<notin> set (map part_id (part_selection db))" and "fst (gen 0) \<noteq> fst (gen 1)"
  shows "\<exists>a b. fst (addPartMutation gen db (Some sid) (spoolData g f1 f2)) = Inr [a, b]
           \<and> groupMembers (snd (addPartMutation gen db (Some sid) (spoolData g f1 f2))) g
               = groupMembers db g @ [a, b]"
proof -
  obtain a db1 where p1: "post_stack_items (fst (gen 0)) (snd (gen 0)) db sid (sideBody sid g f1) = Inr (a, db1)"
    and g1: "groupMembers db1 g = groupMembers db g @ [a]"
    and fs1: "flange_spec db1 = flange_spec db" and sh1: "stack_header db1 = stack_header db"
    and i1: "map part_id (part_selection db1) = map part_id (part_selection db) @ [fst (gen 0)]"
    using post_side_ok[OF assms(1,2,4), where now = "snd (gen 0)" and g = g] by blast
  have st1: "getStack db1 sid \<noteq> None"
    using assms(1) by (simp add: getStack_after_add[OF sh1])
  have sp1: "getFlangeSpecById db1 f2 \<noteq> None"
    using assms(3) by (simp add: getFlangeSpecById_after_add[OF fs1])
  have fr1: "fst (gen 1) \<notin> set (map part_id (part_selection db1))"
    using assms(5,6) by (simp only: i1 set_append list.set) auto
  obtain b db2 where p2: "post_stack_items (fst (gen 1)) (snd (gen 1)) db1 sid (sideBody sid g f2) = Inr (b, db2)"
    and g2: "groupMembers db2 g = groupMembers db1 g @ [b]"
    using post_side_ok[OF st1 sp1 fr1, where now = "snd (gen 1)" and g = g] by blast
  have "addPartMutation gen db (Some sid) (spoolData g f1 f2) = (Inr [a, b], db2)"
    by (simp only: addPartMutation_spool p1 p2 sum.case prod.case)
  with g1 g2 show ?thesis by simp
qed

lemma spool_second_side_fails:
  assumes "getStack db sid \<noteq> None" and "getFlangeSpecById db f1 \<noteq> None"
    and "getFlangeSpecById db f2 = None"
    and "fst (gen 0) \<notin> set (map part_id (part_selection db))"
  shows "\<exists>a. fst (addPartMutation gen db (Some sid) (spoolData g f1 f2)) = Inl BadRequest
           \<and> groupMembers (snd (addPartMutation gen db (Some sid) (spoolData g f1 f2))) g
               = groupMembers db g @ [a]"
proof -
  obtain a db1 where p1: "post_stack_items (fst (gen 0)) (snd (gen 0)) db sid (sideBody sid g f1) = Inr (a, db1)"
    and g1: "groupMembers db1 g = groupMembers db g @ [a]"
    and fs1: "flange_spec db1 = flange_spec db"
    using post_side_ok[OF assms(1,2,4), where now = "snd (gen 0)" and g = g] by blast
  have "getFlangeSpecById db1 (ins_flangeSpecId (sideBody sid g f2)) = None"
    using assms(3) by (simp add: getFlangeSpecById_after_add[OF fs1] sideBody_def)
  then have p2: "post_stack_items (fst (gen 1)) (snd (gen 1)) db1 sid (sideBody sid g f2) = Inl BadRequest"
    by (rule post_stack_items_missing_spec)
  have "addPartMutation gen db (Some sid) (spoolData g f1 f2) = (Inl BadRequest, db1)"
    by (simp only: addPartMutation_spool p1 p2 sum.case prod.case)
  with g1 show ?thesis by simp
qed

text \<open>
  Claim C6, as the code has it. Removing a part selection removes the rows with its id and
  no other, whatever their group: when ids are unique, removing a member of a group leaves
  the group with one member less. The client stores an adapter spool by one request per
  side: when both succeed, the group has gained the two sides; when the first succeeds and
  the second is refused, the mutation fails and the group keeps the first side alone.
\<close>

theorem composite_group_sizes:
  "groupMembers (delete_stack_item db sid pid) g = filter (\<lambda>q. part_id q \<noteq> pid) (groupMembers db g)
   \<and> (distinct (map part_id (part_selection db)) \<and> p \<in> set (groupMembers db g) \<longrightarrow>
        length (groupMembers (delete_stack_item db sid (part_id p)) g) = length (groupMembers db g) - 1)
   \<and> (getStack db sid \<noteq> None \<and> getFlangeSpecById db f1 \<noteq> None \<and> getFlangeSpecById db f2 \<noteq> None
        \<and> fst (gen 0) \<notin> set (map part_id (part_selection db))
        \<and> fst (gen 1) \<notin> set (map part_id (part_selection db)) \<and> fst (gen 0) \<noteq> fst (gen 1) \<longrightarrow>
        (\<exists>a b. fst (addPartMutation gen db (Some sid) (spoolData g f1 f2)) = Inr [a, b]
           \<and> groupMembers (snd (addPartMutation gen db (Some sid) (spoolData g f1 f2))) g
               = groupMembers db g @ [a, b]))
   \<and> (getStack db sid \<noteq> None \<and> getFlangeSpecById db f1 \<noteq> None \<and> getFlangeSpecById db f2 = None
        \<and> fst (gen 0) \<notin> set (map part_id (part_selection db)) \<longrightarrow>
        (\<exists>a. fst (addPartMutation gen db (Some sid) (spoolData g f1 f2)) = Inl BadRequest
           \<and> groupMembers (snd (addPartMutation gen db (Some sid) (spoolData g f1 f2))) g
               = groupMembers db g @ [a]))"
proof (intro conjI impI)
  show "groupMembers (delete_stack_item db sid pid) g = filter (\<lambda>q. part_id q \<noteq> pid) (groupMembers db g)"
    by (simp add: delete_stack_item_def groupMembers_remove)
next
  assume "distinct (map part_id (part_selection db)) \<and> p \<in> set (groupMembers db g)"
  then show "length (groupMembers (delete_stack_item db sid (part_id p)) g) = length (groupMembers db g) - 1"
    by (simp add: delete_stack_item_def groupMembers_remove length_filter_remove_one distinct_groupMembers)
next
  assume "getStack db sid \<noteq> None \<and> getFlangeSpecById db f1 \<noteq> None \<and> getFlangeSpecById db f2 \<noteq> None
        \<and> fst (gen 0) \<notin> set (map part_id (part_selection db))
        \<and> fst (gen 1) \<notin> set (map part_id (part_selection db)) \<and> fst (gen 0) \<noteq> fst (gen 1)"
  then show "\<exists>a b. fst (addPartMutation gen db (Some sid) (spoolData g f1 f2)) = Inr [a, b]
           \<and> groupMembers (snd (addPartMutation gen db (Some sid) (spoolData g f1 f2))) g
               = groupMembers db g @ [a, b]"
    by (intro spool_both_sides) (elim conjE, assumption)+
next
  assume "getStack db sid \<noteq> None \<and> getFlangeSpecById db f1 \<noteq> None \<and> getFlangeSpecById db f2 = None
        \<and> fst (gen 0) \<notin> set (map part_id (part_selection db))"
  then show "\<exists>a. fst (addPartMutation gen db (Some sid) (spoolData g f1 f2)) = Inl BadRequest
           \<and> groupMembers (snd (addPartMutation gen db (Some sid) (spoolData g f1 f2))) g
               = groupMembers db g @ [a]"
    by (intro spool_second_side_fails) (elim conjE, assumption)+
qed


theorem composite_group_sizes_witness:
  "(distinct (map part_id (part_selection spool_db)) \<and> side1 \<in> set (groupMembers spool_db (js ''g1'')))
   \<and> length (groupMembers (delete_stack_item spool_db (js ''s1'') (part_id side1)) (js ''g1''))
       = length (groupMembers spool_db (js ''g1'')) - 1
   \<and> (\<exists>a b. fst (addPartMutation demo_gen demo_db (Some (js ''s1''))
                  (spoolData (js ''g1'') (js ''spec-a'') (js ''spec-b''))) = Inr [a, b])
   \<and> (getFlangeSpecById demo_db (js ''spec-x'') = None
      \<and> fst (addPartMutation demo_gen demo_db (Some (js ''s1''))
                  (spoolData (js ''g1'') (js ''spec-a'') (js ''spec-x''))) = Inl BadRequest
      \<and> length (groupMembers (snd (addPartMutation demo_gen demo_db (Some (js ''s1''))
                  (spoolData (js ''g1'') (js ''spec-a'') (js ''spec-x'')))) (js ''g1'')) = 1)"
proof -
  have h1: "distinct (map part_id (part_selection spool_db)) \<and> side1 \<in> set (groupMembers spool_db (js ''g1''))"
    by (simp add: groupMembers_def db_defs)
  have h2: "getStack demo_db (js ''s1'') \<noteq> None \<and> getFlangeSpecById demo_db (js ''spec-a'') \<noteq> None
      \<and> getFlangeSpecById demo_db (js ''spec-b'') \<noteq> None
      \<and> fst (demo_gen 0) \<notin> set (map part_id (part_selection demo_db))
      \<and> fst (demo_gen 1) \<notin> set (map part_id (part_selection demo_db))
      \<and> fst (demo_gen 0) \<noteq> fst (demo_gen 1)"
    by (simp add: getStack_def getFlangeSpecById_def demo_gen_def db_defs)
  have h3: "getStack demo_db (js ''s1'') \<noteq> None \<and> getFlangeSpecById demo_db (js ''spec-a'') \<noteq> None
      \<and> getFlangeSpecById demo_db (js ''spec-x'') = None
      \<and> fst (demo_gen 0) \<notin> set (map part_id (part_selection demo_db))"
    by (simp add: getStack_def getFlangeSpecById_def demo_gen_def db_defs)
  have e: "groupMembers demo_db (js ''g1'') = []"
    by (simp add: groupMembers_def db_defs)
  have c1: "length (groupMembers (delete_stack_item spool_db (js ''s1'') (part_id side1)) (js ''g1''))
       = length (groupMembers spool_db (js ''g1'')) - 1"
    using h1 composite_group_sizes [where db = spool_db and sid = "js ''s1''" and g = "js ''g1''"
        and p = side1]
    by blast
  have c2: "\<exists>a b. fst (addPartMutation demo_gen demo_db (Some (js ''s1''))
                  (spoolData (js ''g1'') (js ''spec-a'') (js ''spec-b''))) = Inr [a, b]"
    using h2 composite_group_sizes [where db = demo_db and sid = "js ''s1''" and g = "js ''g1''"
        and ?f1.0 = "js ''spec-a''" and ?f2.0 = "js ''spec-b''" and gen = demo_gen]
    by blast
  have c3: "\<exists>a. fst (addPartMutation demo_gen demo_db (Some (js ''s1''))
                  (spoolData (js ''g1'') (js ''spec-a'') (js ''spec-x''))) = Inl BadRequest
      \<and> groupMembers (snd (addPartMutation demo_gen demo_db (Some (js ''s1''))
                  (spoolData (js ''g1'') (js ''spec-a'') (js ''spec-x'')))) (js ''g1'')
          = groupMembers demo_db (js ''g1'') @ [a]"
    using h3 composite_group_sizes [where db = demo_db and sid = "js ''s1''" and g = "js ''g1''"
        and ?f1.0 = "js ''spec-a''" and ?f2.0 = "js ''spec-x''" and gen = demo_gen]
    by blast
  show ?thesis
    using h1 h3 c1 c2 c3 e by auto
qed

text \<open>
  Claim C6 as stated fails: in a stack that holds the two sides of one adapter spool,
  removing one side leaves its group with a single member.
\<close>

theorem single_side_counterexample:
  "length (groupMembers spool_db (js ''g1'')) = 2
   \<and> length (groupMembers (delete_stack_item spool_db (js ''s1'') (js ''p1'')) (js ''g1'')) = 1"
  by (simp add: groupMembers_def delete_stack_item_def removePartFromStack_def db_defs)

section \<open>Properties of the report\<close>

lemmas report_data_defs = annular_part_def spool_part1_def spool_part2_def zero_part_def
  PartSelection.extend_def PartWithFlangeSpec.fields_def part1_def side1_def side2_def
  specA_def specB_def demo_stack_def part_type_defs js_def

lemma group_parts_fold:
  "group_parts ps (G, R) =
     (foldl (\<lambda>G p. spool_push G (the (spoolGroupId p)) p) G (filter isSpoolSide ps),
      R @ filter (\<lambda>p. \<not> isSpoolSide p) ps)"
  by (induction ps arbitrary: G R) (simp_all add: isSpoolSide_def)

lemma from_set_snoc: "from_set (xs @ [x]) = set_add (from_set xs) x"
  by (simp add: from_set_def)

lemma groups_of_snoc:
  assumes "spoolGroupId x = Some g"
  shows "groups_of (S @ [x]) = spool_push (groups_of S) g x"
proof (cases "g \<in> set (from_set (map (\<lambda>p. the (spoolGroupId p)) S))")
  case True
  then have keys: "g \<in> set (map fst (groups_of S))"
    by (simp add: groups_of_def comp_def)
  have "from_set (map (\<lambda>p. the (spoolGroupId p)) (S @ [x])) = from_set (map (\<lambda>p. the (spoolGroupId p)) S)"
    using True assms by (simp add: from_set_snoc set_add_def)
  then have "groups_of (S @ [x]) =
      map (\<lambda>k. (k, filter (\<lambda>p. spoolGroupId p = Some k) S @ (if k = g then [x] else [])))
        (from_set (map (\<lambda>p. the (spoolGroupId p)) S))"
    using assms by (auto simp: groups_of_def)
  also have "\<dots> = map (\<lambda>(k', sides). if k' = g then (k', sides @ [x]) else (k', sides)) (groups_of S)"
    by (simp add: groups_of_def comp_def)
  finally show ?thesis using keys by (simp add: spool_push_def)
next
  case False
  then have keys: "g \<notin> set (map fst (groups_of S))"
    by (simp add: groups_of_def comp_def)
  have gset: "g \<notin> set (map (\<lambda>p. the (spoolGroupId p)) S)"
    using False by (simp add: set_from_set)
  have none: "filter (\<lambda>p. spoolGroupId p = Some g) S = []"
  proof -
    have "\<forall>p\<in>set S. spoolGroupId p \<noteq> Some g"
    proof
      fix p assume "p \<in> set S"
      then have "the (spoolGroupId p) \<in> set (map (\<lambda>p. the (spoolGroupId p)) S)" by simp
      with gset show "spoolGroupId p \<noteq> Some g" by auto
    qed
    then show ?thesis by (simp add: filter_empty_conv)
  qed
  have same: "map (\<lambda>k. (k, filter (\<lambda>p. spoolGroupId p = Some k) (S @ [x])))
        (from_set (map (\<lambda>p. the (spoolGroupId p)) S)) = groups_of S"
    unfolding groups_of_def
  proof (rule map_cong[OF refl])
    fix k assume "k \<in> set (from_set (map (\<lambda>p. the (spoolGroupId p)) S))"
    with False have "k \<noteq> g" by auto
    with assms show "(k, filter (\<lambda>p. spoolGroupId p = Some k) (S @ [x]))
        = (k, filter (\<lambda>p. spoolGroupId p = Some k) S)" by simp
  qed
  have "from_set (map (\<lambda>p. the (spoolGroupId p)) (S @ [x]))
      = from_set (map (\<lambda>p. the (spoolGroupId p)) S) @ [g]"
    using False assms by (simp add: from_set_snoc set_add_def)
  then have "groups_of (S @ [x]) = groups_of S @ [(g, [x])]"
    using same none assms by (simp add: groups_of_def)
  with keys show ?thesis by (simp add: spool_push_def)
qed

lemma foldl_spool_push:
  assumes "\<forall>p\<in>set S. spoolGroupId p \<noteq> None"
  shows "foldl (\<lambda>G p. spool_push G (the (spoolGroupId p)) p) [] S = groups_of S"
  using assms
proof (induction S rule: rev_induct)
  case Nil
  then show ?case by (simp add: groups_of_def from_set_def)
next
  case (snoc x S)
  then obtain g where g: "spoolGroupId x = Some g" by auto
  from snoc have "foldl (\<lambda>G p. spool_push G (the (spoolGroupId p)) p) [] S = groups_of S" by simp
  with g show ?case by (simp add: groups_of_snoc[OF g])
qed

lemma spoolGroupLines_blocks:
  "spoolGroupLines (c + of_nat n) gs =
     concat (map (\<lambda>(entry, k). groupBlock (c + of_nat k) (snd entry)) (zip gs [n..<n + length gs]))"
proof (induction gs arbitrary: n)
  case Nil
  then show ?case by simp
next
  case (Cons e gs)
  let ?F = "\<lambda>(entry, k). groupBlock (c + of_nat k) (snd entry)"
  obtain g sides where e: "e = (g, sides)" by (cases e)
  have "[n..<n + length (e # gs)] = n # [Suc n..<n + length (e # gs)]"
    by (rule upt_conv_Cons) simp
  moreover have "n + length (e # gs) = Suc n + length gs"
    by simp
  ultimately have idx: "[n..<n + length (e # gs)] = n # [Suc n..<Suc n + length gs]"
    by (simp only:)
  have w: "c + of_nat n + 1 = c + of_nat (Suc n)"
    by (simp add: add.assoc add.commute)
  have "spoolGroupLines (c + of_nat n) (e # gs)
      = groupBlock (c + of_nat n) sides @ spoolGroupLines (c + of_nat n + 1) gs"
    unfolding e groupBlock_def by (rule spoolGroupLines.simps(2))
  also have "\<dots> = groupBlock (c + of_nat n) sides @ spoolGroupLines (c + of_nat (Suc n)) gs"
    by (simp only: w)
  also have "\<dots> = groupBlock (c + of_nat n) sides @ concat (map ?F (zip gs [Suc n..<Suc n + length gs]))"
    by (simp only: Cons.IH)
  also have "\<dots> = concat (map ?F (zip (e # gs) (n # [Suc n..<Suc n + length gs])))"
    by (simp add: e)
  also have "\<dots> = concat (map ?F (zip (e # gs) [n..<n + length (e # gs)]))"
    by (simp only: idx)
  finally show ?case .
qed

lemma generateReportLines_eq:
  "generateReportLines (stack, parts) =
     map regularLine (filter (\<lambda>p. \<not> isSpoolSide p) parts)
     @ concat (map (\<lambda>(g, k). groupBlock (groupLetter k) (groupSides parts g))
                 (zip (groupIds parts) [0..<length (groupIds parts)]))"
proof -
  let ?S = "filter isSpoolSide parts"
  have some: "\<forall>p\<in>set ?S. spoolGroupId p \<noteq> None"
    by (auto simp: isSpoolSide_def truthy_str_def split: option.splits)
  have gp: "group_parts parts ([], []) = (groups_of ?S, filter (\<lambda>p. \<not> isSpoolSide p) parts)"
    by (simp add: group_parts_fold foldl_spool_push[OF some])
  have len: "length (groups_of ?S) = length (groupIds parts)"
    by (simp add: groups_of_def groupIds_def)
  have "spoolGroupLines 0x41 (groups_of ?S) = spoolGroupLines (0x41 + of_nat 0) (groups_of ?S)"
    by simp
  also have "\<dots> = concat (map (\<lambda>(entry, k). groupBlock (0x41 + of_nat k) (snd entry))
                        (zip (groups_of ?S) [0..<0 + length (groups_of ?S)]))"
    by (rule spoolGroupLines_blocks)
  also have "\<dots> = concat (map (\<lambda>(g, k). groupBlock (groupLetter k) (groupSides parts g))
                 (zip (groupIds parts) [0..<length (groupIds parts)]))"
    by (simp add: groups_of_def groupIds_def groupSides_def groupLetter_def zip_map1 comp_def
        case_prod_unfold conj_commute)
  finally show ?thesis
    by (simp add: generateReportLines_def gp)
qed

lemma groupLetter_inj:
  assumes "k1 < k2" and "k2 < 65536"
  shows "groupLetter k1 \<noteq> groupLetter k2"
proof
  assume "groupLetter k1 = groupLetter k2"
  then have "(of_nat k1 :: 16 word) = of_nat k2"
    by (simp add: groupLetter_def)
  then have "unat (of_nat k1 :: 16 word) = unat (of_nat k2 :: 16 word)"
    by simp
  moreover have "unat (of_nat k1 :: 16 word) = k1" "unat (of_nat k2 :: 16 word) = k2"
    using assms by (simp_all add: of_nat_inverse)
  ultimately show False using assms(1) by simp
qed

lemma set_groupIds: "set (groupIds parts) = {g. groupSides parts g \<noteq> []}"
proof -
  have "g \<in> set (groupIds parts) \<longleftrightarrow> groupSides parts g \<noteq> []" for g
  proof
    assume "g \<in> set (groupIds parts)"
    then obtain p where "p \<in> set parts" "isSpoolSide p" "g = the (spoolGroupId p)"
      by (auto simp: groupIds_def set_from_set)
    moreover from this have "spoolGroupId p = Some g"
      by (auto simp: isSpoolSide_def truthy_str_def split: option.splits)
    ultimately show "groupSides parts g \<noteq> []"
      by (auto simp: groupSides_def filter_empty_conv)
  next
    assume "groupSides parts g \<noteq> []"
    then obtain p where "p \<in> set parts" "isSpoolSide p" "spoolGroupId p = Some g"
      by (auto simp: groupSides_def filter_empty_conv)
    then have "g \<in> (\<lambda>p. the (spoolGroupId p)) ` set (filter isSpoolSide parts)"
      by force
    then show "g \<in> set (groupIds parts)"
      by (simp add: groupIds_def set_from_set)
  qed
  then show ?thesis by blast
qed

text \<open>
  Claim C8, as the code has it. The report is the lines of the parts that are not grouped
  spool sides, in stack order, followed by one block per group: the groups are taken each
  once, in the order of their first appearance in the stack, and the group at index \<open>k\<close>
  gets the letter \<open>k\<close> places after \<open>A\<close> (\<open>A\<close>, \<open>B\<close>, \<open>C\<close>, ...; code units modulo \<open>2^16\<close>, so
  without repetition among 65536 groups). A block has one line per member of the group
  (two when the group has two members), the members sorted by creation time ascending,
  members of equal time in stack order, and numbered Side 1, Side 2, ...
\<close>

theorem composite_labelling:
  "generateReportLines (stack, parts) =
     map regularLine (filter (\<lambda>p. \<not> isSpoolSide p) parts)
     @ concat (map (\<lambda>(g, k). groupBlock (groupLetter k) (groupSides parts g))
                 (zip (groupIds parts) [0..<length (groupIds parts)]))
   \<and> distinct (groupIds parts)
   \<and> set (groupIds parts) = {g. groupSides parts g \<noteq> []}
   \<and> length (groupBlock letter sides) = length sides
   \<and> sorted (map createdTime (sortSides sides))
   \<and> set (sortSides sides) = set sides
   \<and> (\<forall>t. filter (\<lambda>s. createdTime s = t) (sortSides sides) = filter (\<lambda>s. createdTime s = t) sides)
   \<and> (\<forall>k1 k2. k1 < k2 \<and> k2 < 65536 \<longrightarrow> groupLetter k1 \<noteq> groupLetter k2)
   \<and> [groupLetter 0, groupLetter 1, groupLetter 2, groupLetter 25] = js ''ABCZ''"
proof -
  have "length (groupBlock letter sides) = length sides"
    by (simp add: groupBlock_def sortSides_def)
  moreover have "\<forall>t. filter (\<lambda>s. createdTime s = t) (sortSides sides) = filter (\<lambda>s. createdTime s = t) sides"
    by (simp add: sortSides_def sort_key_stable)
  moreover have "[groupLetter 0, groupLetter 1, groupLetter 2, groupLetter 25] = js ''ABCZ''"
    by (simp add: groupLetter_def js_def)
  ultimately show ?thesis
    using generateReportLines_eq [of stack parts] set_groupIds [of parts] groupLetter_inj
    by (simp add: groupIds_def distinct_from_set sortSides_def)
qed

theorem composite_labelling_witness:
  "(0::nat) < 1 \<and> (1::nat) < 65536 \<and> groupLetter 0 \<noteq> groupLetter 1
   \<and> generateReportLines (demo_stack, [spool_part2, annular_part, spool_part1]) =
       [regularLine annular_part, spoolLine (groupLetter 0) 1 spool_part1,
        spoolLine (groupLetter 0) 2 spool_part2]"
proof -
  have ids: "groupIds [spool_part2, annular_part, spool_part1] = [js ''g1'']"
    by (simp add: groupIds_def isSpoolSide_def truthy_str_def from_set_def set_add_def report_data_defs)
  have sides: "groupSides [spool_part2, annular_part, spool_part1] (js ''g1'') = [spool_part2, spool_part1]"
    by (simp add: groupSides_def isSpoolSide_def truthy_str_def report_data_defs)
  have reg: "filter (\<lambda>p. \<not> isSpoolSide p) [spool_part2, annular_part, spool_part1] = [annular_part]"
    by (simp add: isSpoolSide_def truthy_str_def report_data_defs)
  have srt: "sortSides [spool_part2, spool_part1] = [spool_part1, spool_part2]"
    by (simp add: sortSides_def createdTime_def report_data_defs)
  have blk: "groupBlock (groupLetter 0) [spool_part2, spool_part1] =
      [spoolLine (groupLetter 0) 1 spool_part1, spoolLine (groupLetter 0) 2 spool_part2]"
    by (simp add: groupBlock_def srt upt_rec numeral_2_eq_2)
  have lines: "generateReportLines (demo_stack, [spool_part2, annular_part, spool_part1]) =
       [regularLine annular_part, spoolLine (groupLetter 0) 1 spool_part1,
        spoolLine (groupLetter 0) 2 spool_part2]"
    by (simp only: composite_labelling [of demo_stack "[spool_part2, annular_part, spool_part1]",
          THEN conjunct1] ids sides reg)
       (simp add: blk sides)
  have "\<forall>k1 k2. k1 < k2 \<and> k2 < 65536 \<longrightarrow> groupLetter k1 \<noteq> groupLetter k2"
    by (rule composite_labelling [of demo_stack "[]", THEN conjunct2, THEN conjunct2, THEN conjunct2,
          THEN conjunct2, THEN conjunct2, THEN conjunct2, THEN conjunct2, THEN conjunct1])
  then have "groupLetter 0 \<noteq> groupLetter 1"
    by simp
  with lines show ?thesis
    by simp
qed

text \<open>
  Claim C8 as stated fails: a stack that holds one side of a group only, as it is after the
  other side has been removed, gets one line for that group, not two.
\<close>

theorem single_side_report_counterexample:
  "groupIds [annular_part, spool_part1] = [js ''g1'']
   \<and> generateReportLines (demo_stack, [annular_part, spool_part1]) =
       [regularLine annular_part, spoolLine 0x41 1 spool_part1]"
  by (simp add: generateReportLines_def spool_push_def sortSides_def groupIds_def isSpoolSide_def
      truthy_str_def from_set_def set_add_def report_data_defs)

lemma stray_fields [simp]:
  "partType (withStrayPressure x p) = partType p"
  "spoolGroupId (withStrayPressure x p) = spoolGroupId p"
  "createdAt (withStrayPressure x p) = createdAt p"
  "flangeSpec (withStrayPressure x p) = flangeSpec p"
  by (simp_all add: withStrayPressure_def)

lemma stray_isSpoolSide [simp]: "isSpoolSide (withStrayPressure x p) = isSpoolSide p"
  by (simp add: isSpoolSide_def)

lemma stray_createdTime [simp]: "createdTime (withStrayPressure x p) = createdTime p"
  by (simp add: createdTime_def)

lemma stray_regularLine [simp]: "regularLine (withStrayPressure x p) = regularLine p"
  by (simp add: regularLine_def withStrayPressure_def getPartDisplayName_def)

lemma stray_spoolLine [simp]: "spoolLine c n (withStrayPressure x p) = spoolLine c n p"
  by (simp add: spoolLine_def)

lemma insort_key_map:
  assumes "\<And>y. f (h y) = f y"
  shows "insort_key f (h x) (map h ys) = map h (insort_key f x ys)"
  by (induction ys) (simp_all add: assms)

lemma sort_key_map:
  assumes "\<And>y. f (h y) = f y"
  shows "sort_key f (map h xs) = map h (sort_key f xs)"
  by (induction xs) (simp_all add: insort_key_map[of f h, OF assms])

lemma stray_sortSides: "sortSides (map (withStrayPressure x) sides) = map (withStrayPressure x) (sortSides sides)"
  unfolding sortSides_def by (rule sort_key_map) simp

lemma stray_groupBlock: "groupBlock c (map (withStrayPressure x) sides) = groupBlock c sides"
  by (simp add: groupBlock_def stray_sortSides zip_map1 comp_def case_prod_unfold)

lemma stray_groupSides:
  "groupSides (map (withStrayPressure x) parts) g = map (withStrayPressure x) (groupSides parts g)"
  by (simp add: groupSides_def filter_map comp_def)

lemma stray_groupIds: "groupIds (map (withStrayPressure x) parts) = groupIds parts"
  by (simp add: groupIds_def filter_map comp_def)

lemma stray_report:
  "generateReportLines (stack, map (withStrayPressure x) parts) = generateReportLines (stack, parts)"
  by (simp add: generateReportLines_eq stray_groupIds stray_groupSides stray_groupBlock
      filter_map comp_def)

lemma segment_not_empty: "js '' '' @ en_dash @ js '' Pressure '' @ num_str v \<noteq> []"
  by (simp add: js_def)

text \<open>
  Claim C7, as the code has it. The display name of a part carries the pressure segment if
  and only if the part type is one of the four pressure-driven types and the pressure value
  is neither NULL nor 0; so does the line of a part that is not a grouped spool side. The
  line of a spool side never reads the pressure value, and a report does not change when
  the pressure values of the parts that are not pressure-driven are replaced by any other
  values.
\<close>

theorem target_segment_iff:
  "set pressureDrivenParts = {ANNULAR, SINGLE_RAM, DOUBLE_RAMS, MUD_CROSS}
   \<and> (pt \<in> set pressureDrivenParts \<and> p = Some v \<and> v \<noteq> 0 \<longrightarrow>
        getPartDisplayName pt p = baseName pt @ js '' '' @ en_dash @ js '' Pressure '' @ num_str v)
   \<and> (getPartDisplayName pt p \<noteq> baseName pt \<longleftrightarrow>
        pt \<in> set pressureDrivenParts \<and> p \<noteq> None \<and> p \<noteq> Some 0)
   \<and> (regularLine part \<noteq> baseName (partType part) @ flangeSpecText (flangeSpec part) \<longleftrightarrow>
        partType part \<in> set pressureDrivenParts \<and> pressureValue part \<noteq> None \<and> pressureValue part \<noteq> Some 0)
   \<and> spoolLine c n (side\<lparr>pressureValue := q\<rparr>) = spoolLine c n side
   \<and> generateReportLines (stack, map (withStrayPressure x) parts) = generateReportLines (stack, parts)"
proof -
  have a: "set pressureDrivenParts = {ANNULAR, SINGLE_RAM, DOUBLE_RAMS, MUD_CROSS}"
    by (simp add: pressureDrivenParts_def)
  have b: "pt \<in> set pressureDrivenParts \<and> p = Some v \<and> v \<noteq> 0 \<longrightarrow>
        getPartDisplayName pt p = baseName pt @ js '' '' @ en_dash @ js '' Pressure '' @ num_str v"
    by (simp add: getPartDisplayName_def truthy_num_def)
  have c: "getPartDisplayName pt' p' \<noteq> baseName pt' \<longleftrightarrow>
        pt' \<in> set pressureDrivenParts \<and> p' \<noteq> None \<and> p' \<noteq> Some 0" for pt' p'
    using segment_not_empty
    by (cases p') (simp_all add: getPartDisplayName_def truthy_num_def)
  have d: "regularLine part \<noteq> baseName (partType part) @ flangeSpecText (flangeSpec part) \<longleftrightarrow>
        partType part \<in> set pressureDrivenParts \<and> pressureValue part \<noteq> None \<and> pressureValue part \<noteq> Some 0"
    using c[of "partType part" "pressureValue part"] by (simp add: regularLine_def)
  have e: "spoolLine c n (side\<lparr>pressureValue := q\<rparr>) = spoolLine c n side"
    by (simp add: spoolLine_def)
  show ?thesis
    using a b c[of pt p] d e stray_report[of stack x parts] by blast
qed


theorem target_segment_iff_witness:
  "ANNULAR \<in> set pressureDrivenParts
   \<and> getPartDisplayName ANNULAR (Some 5000) = js ''Annular '' @ en_dash @ js '' Pressure 5000''"
proof -
  have h: "ANNULAR \<in> set pressureDrivenParts \<and> Some 5000 = Some (5000::int) \<and> (5000::int) \<noteq> 0"
    by (simp add: pressureDrivenParts_def)
  have n: "num_str 5000 = js ''5000''"
    by (simp add: num_str_def digit_str.simps js_def)
  show ?thesis
    using h n target_segment_iff [of ANNULAR "Some 5000" 5000]
    by (simp add: baseName_def js_def)
qed

text \<open>
  Claim C7 as stated fails: an annular whose stored pressure value is 0 has a pressure-driven
  part type and a pressure value that is not NULL, yet its line carries no pressure segment.
\<close>

theorem zero_target_counterexample:
  "partType zero_part \<in> set pressureDrivenParts \<and> pressureValue zero_part = Some 0
   \<and> getPartDisplayName (partType zero_part) (pressureValue zero_part) = js ''Annular''
   \<and> regularLine zero_part = js ''Annular'' @ flangeSpecText (flangeSpec zero_part)"
  by (simp add: regularLine_def getPartDisplayName_def truthy_num_def baseName_def
      pressureDrivenParts_def report_data_defs)

lemma math_min_eq: "xs \<noteq> [] \<Longrightarrow> math_min xs = Min (set xs)"
proof (cases xs)
  case Nil
  assume "xs \<noteq> []"
  with Nil show ?thesis by simp
next
  case (Cons a list)
  then show ?thesis
    unfolding math_min_def using Min.set_eq_fold[of a list] by simp
qed

lemma math_max_eq: "xs \<noteq> [] \<Longrightarrow> math_max xs = Max (set xs)"
proof (cases xs)
  case Nil
  assume "xs \<noteq> []"
  with Nil show ?thesis by simp
next
  case (Cons a list)
  then show ?thesis
    unfolding math_max_def using Max.set_eq_fold[of a list] by simp
qed

lemma set_map_filter_iff: "v \<in> set (List.map_filter f xs) \<longleftrightarrow> (\<exists>x\<in>set xs. f x = Some v)"
  by (induction xs) (auto simp: map_filter_simps split: option.splits)

lemma positivePressures_iff:
  "v \<in> positivePressures parts \<longleftrightarrow> 0 < v \<and> (\<exists>p\<in>set parts. pressureValue p = Some v)"
  by (auto simp: positivePressures_def set_map_filter_iff)

lemma set_pressures:
  "set (sort (map the (filter (\<lambda>p. truthy_num p \<and> the p > 0) (map pressureValue parts))))
     = positivePressures parts"
proof -
  have "v \<in> the ` {q \<in> pressureValue ` set parts. truthy_num q \<and> 0 < the q}
      \<longleftrightarrow> v \<in> positivePressures parts" for v
  proof
    assume "v \<in> the ` {q \<in> pressureValue ` set parts. truthy_num q \<and> 0 < the q}"
    then obtain p where "p \<in> set parts" "truthy_num (pressureValue p)"
      "0 < the (pressureValue p)" "v = the (pressureValue p)"
      by auto
    then show "v \<in> positivePressures parts"
      by (cases "pressureValue p") (auto simp: positivePressures_iff truthy_num_def)
  next
    assume "v \<in> positivePressures parts"
    then obtain p where p: "p \<in> set parts" "pressureValue p = Some v" "0 < v"
      by (auto simp: positivePressures_iff)
    from p(1) have "pressureValue p \<in> pressureValue ` set parts"
      by (rule imageI)
    with p have "pressureValue p \<in> {q \<in> pressureValue ` set parts. truthy_num q \<and> 0 < the q}"
      by (simp add: truthy_num_def)
    then have "the (pressureValue p) \<in> the ` {q \<in> pressureValue ` set parts. truthy_num q \<and> 0 < the q}"
      by (rule imageI)
    with p show "v \<in> the ` {q \<in> pressureValue ` set parts. truthy_num q \<and> 0 < the q}"
      by simp
  qed
  then show ?thesis by auto
qed

lemma getPressureRanges_eq:
  "getPressureRanges parts =
     (if positivePressures parts = {} then js ''N/A''
      else if Min (positivePressures parts) = Max (positivePressures parts)
           then num_str (Min (positivePressures parts)) @ js '' PSI''
           else num_str (Min (positivePressures parts)) @ js ''-''
                @ num_str (Max (positivePressures parts)) @ js '' PSI'')"
proof -
  let ?ps = "sort (map the (filter (\<lambda>p. truthy_num p \<and> the p > 0) (map pressureValue parts)))"
  have s: "set ?ps = positivePressures parts" by (rule set_pressures)
  show ?thesis
  proof (cases "?ps = []")
    case True
    with s have "positivePressures parts = {}" by (metis empty_set)
    with True show ?thesis by (simp add: getPressureRanges_def)
  next
    case False
    with s have ne: "positivePressures parts \<noteq> {}" by (metis set_empty)
    have "math_min ?ps = Min (positivePressures parts)" "math_max ?ps = Max (positivePressures parts)"
      using math_min_eq[OF False] math_max_eq[OF False] s by simp_all
    with False ne show ?thesis
      by (simp add: getPressureRanges_def Let_def)
  qed
qed

lemma sort_from_set: "sort (from_set xs) = sorted_list_of_set (set xs)"
proof -
  have "sorted (sort (from_set xs))" "distinct (sort (from_set xs))"
    "set (sort (from_set xs)) = set xs"
    by (simp_all add: distinct_from_set set_from_set)
  moreover have "sorted (sort (remdups xs))" "distinct (sort (remdups xs))"
    "set (sort (remdups xs)) = set xs"
    by simp_all
  ultimately have "sort (from_set xs) = sort (remdups xs)"
    by (intro sorted_distinct_set_unique) simp_all
  then show ?thesis
    by (simp add: sorted_list_of_set_sort_remdups)
qed

text \<open>
  Claim C9, as the code has it. The total is the number of parts. The pressure range is
  taken over the pressure values that are not NULL and strictly positive: \<open>N/A\<close> when there
  is none, the value followed by \<open>PSI\<close> when the least and the greatest are equal, and
  least, dash, greatest, \<open>PSI\<close> otherwise. The flange classes are the distinct pressure class
  labels of the specifications of the parts, sorted and joined by a comma and a space, or
  \<open>N/A\<close> when that text is empty, as it is for a stack without parts.
\<close>

theorem report_summary:
  "fst (reportSummary (stack, parts)) = length parts
   \<and> fst (snd (reportSummary (stack, parts))) =
       (if positivePressures parts = {} then js ''N/A''
        else if Min (positivePressures parts) = Max (positivePressures parts)
             then num_str (Min (positivePressures parts)) @ js '' PSI''
             else num_str (Min (positivePressures parts)) @ js ''-''
                  @ num_str (Max (positivePressures parts)) @ js '' PSI'')
   \<and> snd (snd (reportSummary (stack, parts))) =
       (if join (js '', '') (sorted_list_of_set ((\<lambda>p. pressureClassLabel (flangeSpec p)) ` set parts)) = []
        then js ''N/A''
        else join (js '', '') (sorted_list_of_set ((\<lambda>p. pressureClassLabel (flangeSpec p)) ` set parts)))
   \<and> (parts = [] \<longrightarrow> snd (snd (reportSummary (stack, parts))) = js ''N/A'')"
proof -
  have c: "getFlangeClasses parts =
       (if join (js '', '') (sorted_list_of_set ((\<lambda>p. pressureClassLabel (flangeSpec p)) ` set parts)) = []
        then js ''N/A''
        else join (js '', '') (sorted_list_of_set ((\<lambda>p. pressureClassLabel (flangeSpec p)) ` set parts)))"
    by (simp add: getFlangeClasses_def sort_from_set Let_def)
  have e: "parts = [] \<longrightarrow> getFlangeClasses parts = js ''N/A''"
    by (simp add: getFlangeClasses_def from_set_def)
  show ?thesis
    using c e getPressureRanges_eq [of parts] by (simp add: reportSummary_def)
qed

theorem report_summary_witness:
  "snd (snd (reportSummary (demo_stack, []))) = js ''N/A''
   \<and> reportSummary (demo_stack, [annular_part, spool_part2]) = (2, js ''5000 PSI'', js ''5M'')"
proof -
  have p: "positivePressures [annular_part, spool_part2] = {5000}"
    by (auto simp: positivePressures_iff report_data_defs)
  have n: "num_str 5000 = js ''5000''"
    by (simp add: num_str_def digit_str.simps js_def)
  have l: "(\<lambda>p. pressureClassLabel (flangeSpec p)) ` set [annular_part, spool_part2] = {js ''5M''}"
    by (auto simp: report_data_defs)
  have r: "reportSummary (demo_stack, [annular_part, spool_part2]) = (2, js ''5000 PSI'', js ''5M'')"
    using report_summary [of demo_stack "[annular_part, spool_part2]"] p n l
    by (simp add: prod_eq_iff js_def)
  show ?thesis
    using r report_summary [of demo_stack "[]"] by simp
qed

text \<open>
  Claim C9 as stated fails: with the pressure values 0 and 5000 present, neither of them
  NULL, the range is rendered as the single value 5000, not as the range from 0 to 5000.
\<close>

theorem nonpositive_target_counterexample:
  "map pressureValue [zero_part, annular_part] = [Some 0, Some 5000]
   \<and> getPressureRanges [zero_part, annular_part] = js ''5000 PSI''"
  by (simp add: getPressureRanges_def truthy_num_def math_min_def math_max_def num_str_def
      digit_str.simps report_data_defs)

end
